theory Spec2Isabelle
  imports Complex_Main
begin

section \<open>Errors\<close>

text \<open>
  The exceptions of the code and of the libraries it calls, as values. \<open>RuntimeError\<close>
  is what \<open>_check_destination\<close> raises, \<open>ValueError\<close> what the calibration and
  \<open>int()\<close> raise; \<open>NodeError\<close>, \<open>NoSuchNodeError\<close> and \<open>ClosedNodeError\<close>
  come from the table store, \<open>ZlibError\<close> from \<open>zlib.decompress\<close>.
\<close>

datatype error =
    RuntimeError
  | ValueError
  | IndexError
  | NameError
  | TypeError
  | ZlibError
  | NodeError
  | NoSuchNodeError
  | ClosedNodeError

section \<open>Numbers of the analysis code\<close>

text \<open>
  The analysis works on NumPy double-precision values. They are idealised here as exact
  reals together with the three special values the code can produce or test for:
  not-a-number (\<open>np.nan\<close>) and the two infinities that a float division by zero
  yields. Rounding is not modelled.
\<close>

datatype pyfloat = Fin real | PosInf | NegInf | NaN

definition ADC_THRESHOLD :: int where
  "ADC_THRESHOLD = 20"

definition ADC_TIME_PER_SAMPLE :: real where
  "ADC_TIME_PER_SAMPLE = 25 / 10 ^ 10"

text \<open>\<open>value * ADC_TIME_PER_SAMPLE\<close>: the constant is finite and positive.\<close>

fun times_sample :: "pyfloat \<Rightarrow> pyfloat" where
  "times_sample (Fin x) = Fin (x * ADC_TIME_PER_SAMPLE)"
| "times_sample PosInf = PosInf"
| "times_sample NegInf = NegInf"
| "times_sample NaN = NaN"

text \<open>
  \<open>1. * a / b\<close> for integers \<open>a\<close> and \<open>b\<close>: a NumPy float division, which does
  not raise on a zero divisor.
\<close>

definition fdiv :: "int \<Rightarrow> int \<Rightarrow> pyfloat" where
  "fdiv a b =
     (if b \<noteq> 0 then Fin (real_of_int a / real_of_int b)
      else if 0 < a then PosInf
      else if a < 0 then NegInf
      else NaN)"

text \<open>\<open>f + x0\<close> for an integer \<open>x0\<close>.\<close>

fun fadd_int :: "pyfloat \<Rightarrow> int \<Rightarrow> pyfloat" where
  "fadd_int (Fin x) k = Fin (x + real_of_int k)"
| "fadd_int PosInf k = PosInf"
| "fadd_int NegInf k = NegInf"
| "fadd_int NaN k = NaN"

section \<open>Arrival-time reconstruction from one trace\<close>

text \<open>
  \<open>ProcessEvents._reconstruct_time_from_trace\<close>: the loop
  \<open>for i, t in enumerate(trace)\<close> with its \<open>break\<close> at the first sample that
  reaches the threshold; \<open>value\<close> stays \<open>np.nan\<close> when the loop runs out.
\<close>

fun scan_nearest :: "int \<Rightarrow> nat \<Rightarrow> int list \<Rightarrow> pyfloat" where
  "scan_nearest threshold i [] = NaN"
| "scan_nearest threshold i (t # ts) =
     (if t \<ge> threshold then Fin (real i)
      else scan_nearest threshold (Suc i) ts)"

definition reconstruct_time_from_trace :: "int list \<Rightarrow> int \<Rightarrow> pyfloat" where
  "reconstruct_time_from_trace trace baseline =
     (let threshold = baseline + ADC_THRESHOLD;
          value = scan_nearest threshold 0 trace
      in times_sample value)"

text \<open>
  \<open>trace[x0]\<close> for \<open>x0 = i - 1\<close>: a negative index counts from the end, so at
  \<open>i = 0\<close> the sample read is the last one of the trace. Inside the loop
  \<open>i < len(trace)\<close>, hence the index is always in range.
\<close>

definition trace_at :: "int list \<Rightarrow> int \<Rightarrow> int" where
  "trace_at trace k =
     (if k < 0 then trace ! nat (int (length trace) + k) else trace ! nat k)"

text \<open>
  \<open>ProcessEventsWithLINT._reconstruct_time_from_trace\<close>: the same scan; at the first
  crossing sample the value is interpolated between the samples \<open>i - 1\<close> and \<open>i\<close>.
\<close>

fun scan_lint :: "int list \<Rightarrow> int \<Rightarrow> nat \<Rightarrow> int list \<Rightarrow> pyfloat" where
  "scan_lint trace threshold i [] = NaN"
| "scan_lint trace threshold i (t # ts) =
     (if t \<ge> threshold then
        (let x0 = int i - 1; x1 = int i;
             y0 = trace_at trace x0; y1 = trace_at trace x1
         in fadd_int (fdiv (threshold - y0) (y1 - y0)) x0)
      else scan_lint trace threshold (Suc i) ts)"

definition reconstruct_time_from_trace_LINT :: "int list \<Rightarrow> int \<Rightarrow> pyfloat" where
  "reconstruct_time_from_trace_LINT trace baseline =
     (let threshold = baseline + ADC_THRESHOLD;
          value = scan_lint trace threshold 0 trace
      in times_sample value)"

section \<open>Events, tables and the group\<close>

text \<open>
  One row of an events table. The four detector slots of \<open>baseline\<close>,
  \<open>pulseheights\<close>, \<open>integrals\<close> and \<open>traces\<close> are lists; the derived columns
  \<open>t1..t4\<close> and \<open>n1..n4\<close> are the lists \<open>ev_t\<close> and \<open>ev_n\<close>, entry \<open>idx\<close>
  being column \<open>idx + 1\<close>. \<open>event_id\<close> stands for the other carried-over columns.
\<close>

record event =
  event_id :: nat
  ev_baseline :: "int list"
  ev_pulseheights :: "int list"
  ev_integrals :: "int list"
  ev_traces :: "int list"
  ev_t :: "pyfloat list"
  ev_n :: "pyfloat list"

text \<open>
  A table is its rows and its column set: \<open>t_processed\<close> tells whether
  \<open>colnames\<close> includes the derived columns (a results table) or not (a raw table, whose
  \<open>ev_t\<close> and \<open>ev_n\<close> entries carry no data).
\<close>

record table =
  t_processed :: bool
  t_rows :: "event list"

text \<open>
  The children of the station group: tables, and the array of compressed traces that
  \<open>self.group.blobs\<close> reads.
\<close>

datatype node = Table table | VLArray "string list"

type_synonym group = "string \<rightharpoonup> node"

text \<open>
  What the code takes from outside the repository: \<open>zlib.decompress\<close>, SciPy's
  \<open>leastsq\<close> (start values, the windowed pulse values and occurrences; the fitted
  parameters or an exception) and the default row of the \<open>ProcessedHisparcEvent\<close>
  table description of \<open>sapphire.storage\<close>.
\<close>

record externals =
  zlib_decompress :: "string \<Rightarrow> string option"
  leastsq :: "real \<times> real \<times> real \<Rightarrow> real list \<Rightarrow> real list
                \<Rightarrow> error + pyfloat \<times> pyfloat \<times> pyfloat"
  dflt_row :: event

section \<open>Python's sequences and strings\<close>

text \<open>\<open>xs[i]\<close>: a negative index counts from the end; out of range raises.\<close>

definition py_index :: "'a list \<Rightarrow> int \<Rightarrow> error + 'a" where
  "py_index xs i =
     (let len = int (length xs); j = (if i < 0 then len + i else i)
      in if 0 \<le> j \<and> j < len then Inr (xs ! nat j) else Inl IndexError)"

text \<open>\<open>s.split(',')\<close>: always at least one field.\<close>

fun split_comma :: "string \<Rightarrow> string list" where
  "split_comma [] = [[]]"
| "split_comma (c # cs) =
     (if c = CHR '','' then [] # split_comma cs
      else (case split_comma cs of
              [] \<Rightarrow> [[c]]
            | f # fs \<Rightarrow> (c # f) # fs))"

text \<open>
  \<open>int(x)\<close> on a byte string: surrounding whitespace is stripped, one sign is allowed,
  and what remains must be one or more decimal digits.
\<close>

definition is_space :: "char \<Rightarrow> bool" where
  "is_space c \<longleftrightarrow> c \<in> set [CHR '' '', CHR 0x09, CHR 0x0A, CHR 0x0B, CHR 0x0C, CHR 0x0D]"

definition strip :: "string \<Rightarrow> string" where
  "strip s = rev (dropWhile is_space (rev (dropWhile is_space s)))"

definition digit_val :: "char \<Rightarrow> int option" where
  "digit_val c =
     (if 48 \<le> (of_char c :: nat) \<and> (of_char c :: nat) \<le> 57
      then Some (int (of_char c) - 48)
      else None)"

fun digits_value :: "int \<Rightarrow> string \<Rightarrow> int option" where
  "digits_value acc [] = Some acc"
| "digits_value acc (c # cs) =
     (case digit_val c of
        None \<Rightarrow> None
      | Some d \<Rightarrow> digits_value (10 * acc + d) cs)"

definition py_int :: "string \<Rightarrow> error + int" where
  "py_int x =
     (let s = strip x;
          sgn_rest = (case s of
                        [] \<Rightarrow> (1, s)
                      | c # r \<Rightarrow> if c = CHR ''-'' then (- 1, r)
                                else if c = CHR ''+'' then (1, r)
                                else (1, s))
      in if snd sgn_rest = [] then Inl ValueError
         else (case digits_value 0 (snd sgn_rest) of
                 None \<Rightarrow> Inl ValueError
               | Some v \<Rightarrow> Inr (fst sgn_rest * v)))"

text \<open>The comprehension \<open>[int(x) for x in trace]\<close>: the first failure propagates.\<close>

fun ints_of :: "string list \<Rightarrow> error + int list" where
  "ints_of [] = Inr []"
| "ints_of (x # xs) =
     (case py_int x of
        Inl e \<Rightarrow> Inl e
      | Inr v \<Rightarrow> (case ints_of xs of Inl e \<Rightarrow> Inl e | Inr vs \<Rightarrow> Inr (v # vs)))"

section \<open>The trace decoder\<close>

text \<open>\<open>self.group.blobs\<close>: the child named \<open>blobs\<close>.\<close>

definition group_blobs :: "group \<Rightarrow> error + string list" where
  "group_blobs g =
     (case g ''blobs'' of
        None \<Rightarrow> Inl NoSuchNodeError
      | Some (Table tb) \<Rightarrow> Inl TypeError
      | Some (VLArray bs) \<Rightarrow> Inr bs)"

text \<open>
  The body of \<open>_get_trace\<close> after the blob has been decompressed: split at the commas,
  delete a last field that is empty, convert every field.
\<close>

definition decode_fields :: "string \<Rightarrow> error + int list" where
  "decode_fields s =
     (let trace = split_comma s;
          trace = (if last trace = [] then butlast trace else trace)
      in ints_of trace)"

definition get_trace :: "externals \<Rightarrow> group \<Rightarrow> int \<Rightarrow> error + int list" where
  "get_trace ext g idx =
     (case group_blobs g of
        Inl e \<Rightarrow> Inl e
      | Inr blobs \<Rightarrow>
          (case py_index blobs idx of
             Inl e \<Rightarrow> Inl e
           | Inr blob \<Rightarrow>
               (case zlib_decompress ext blob of
                  None \<Rightarrow> Inl ZlibError
                | Some s \<Rightarrow> decode_fields s)))"

text \<open>
  Decimal text of an integer sequence, to state what the decoder recovers:
  \<open>show_int\<close> writes one integer, \<open>join_comma\<close> is \<open>','.join\<close>.
\<close>

function decimal :: "nat \<Rightarrow> string" where
  "decimal m =
     (if m < 10 then [''0123456789'' ! m]
      else decimal (m div 10) @ [''0123456789'' ! (m mod 10)])"
  by pat_completeness auto
termination
  by (relation "measure (\<lambda>m. m)") auto

declare decimal.simps [simp del]

definition show_int :: "int \<Rightarrow> string" where
  "show_int v = (if v < 0 then CHR ''-'' # decimal (nat (- v)) else decimal (nat v))"

fun join_comma :: "string list \<Rightarrow> string" where
  "join_comma [] = []"
| "join_comma [x] = x"
| "join_comma (x # y # ys) = x @ CHR '','' # join_comma (y # ys)"

section \<open>Arrival times of one event\<close>

text \<open>
  The six processing classes. A method is looked up along the class's resolution order:
  the two \<open>WithLINT\<close> classes take \<open>_reconstruct_time_from_trace\<close> from
  \<open>ProcessEventsWithLINT\<close>, the two \<open>Indexed\<close> classes without \<open>WithoutTraces\<close>
  take \<open>_store_results_from_traces\<close> and \<open>process_traces\<close> from
  \<open>ProcessIndexedEvents\<close>, and the two \<open>WithoutTraces\<close> classes take the empty
  \<open>_store_results_from_traces\<close>.
\<close>

datatype pclass =
    ProcessEvents
  | ProcessIndexedEvents
  | ProcessEventsWithLINT
  | ProcessIndexedEventsWithLINT
  | ProcessEventsWithoutTraces
  | ProcessIndexedEventsWithoutTraces

definition time_from_trace :: "pclass \<Rightarrow> int list \<Rightarrow> int \<Rightarrow> pyfloat" where
  "time_from_trace cls tr bl =
     (if cls = ProcessEventsWithLINT \<or> cls = ProcessIndexedEventsWithLINT
      then reconstruct_time_from_trace_LINT tr bl
      else reconstruct_time_from_trace tr bl)"

text \<open>
  \<open>_reconstruct_time_from_traces\<close>: the loop over
  \<open>zip(event['baseline'], event['pulseheights'], event['traces'])\<close>.
\<close>

fun reconstruct_slots ::
  "pclass \<Rightarrow> externals \<Rightarrow> group \<Rightarrow> (int \<times> int \<times> int) list \<Rightarrow> pyfloat list
     \<Rightarrow> error + pyfloat list" where
  "reconstruct_slots cls ext g [] timings = Inr timings"
| "reconstruct_slots cls ext g ((bl, pulseheight, trace_idx) # rest) timings =
     (if pulseheight < ADC_THRESHOLD
      then reconstruct_slots cls ext g rest (timings @ [NaN])
      else (case get_trace ext g trace_idx of
              Inl e \<Rightarrow> Inl e
            | Inr tr \<Rightarrow>
                reconstruct_slots cls ext g rest (timings @ [time_from_trace cls tr bl])))"

definition reconstruct_time_from_traces ::
  "pclass \<Rightarrow> externals \<Rightarrow> group \<Rightarrow> event \<Rightarrow> error + pyfloat list" where
  "reconstruct_time_from_traces cls ext g ev =
     reconstruct_slots cls ext g
       (zip (ev_baseline ev) (zip (ev_pulseheights ev) (ev_traces ev))) []"

text \<open>
  The indices with which that loop calls \<open>_get_trace\<close>, in order; the loop ends at a
  call that raises.
\<close>

fun get_trace_calls ::
  "externals \<Rightarrow> group \<Rightarrow> (int \<times> int \<times> int) list \<Rightarrow> int list" where
  "get_trace_calls ext g [] = []"
| "get_trace_calls ext g ((bl, pulseheight, trace_idx) # rest) =
     (if pulseheight < ADC_THRESHOLD
      then get_trace_calls ext g rest
      else (case get_trace ext g trace_idx of
              Inl e \<Rightarrow> [trace_idx]
            | Inr tr \<Rightarrow> trace_idx # get_trace_calls ext g rest))"

text \<open>
  \<open>get_traces_for_event\<close>, the accessor beside it: it skips every negative index.
  The result is the list of decoded traces, before the transposition into an array.
\<close>

fun get_traces_for_event :: "externals \<Rightarrow> group \<Rightarrow> int list \<Rightarrow> error + int list list" where
  "get_traces_for_event ext g [] = Inr []"
| "get_traces_for_event ext g (idx # rest) =
     (if \<not> idx < 0
      then (case get_trace ext g idx of
              Inl e \<Rightarrow> Inl e
            | Inr tr \<Rightarrow> (case get_traces_for_event ext g rest of
                          Inl e \<Rightarrow> Inl e
                        | Inr trs \<Rightarrow> Inr (tr # trs)))
      else get_traces_for_event ext g rest)"

section \<open>The MIP peak finder\<close>

text \<open>
  \<open>np.arange(start, stop, step)\<close> for integers and a positive step (the only use
  the code makes of it).
\<close>

function arange :: "int \<Rightarrow> int \<Rightarrow> int \<Rightarrow> int list" where
  "arange start stop step =
     (if 0 < step \<and> start < stop then start # arange (start + step) stop step else [])"
  by pat_completeness auto
termination
  by (relation "measure (\<lambda>(start, stop, step). nat (stop - start))") auto

declare arange.simps [simp del]

text \<open>
  \<open>np.histogram(a, bins=edges)\<close> with an increasing sequence of edges: every bin is
  half-open, except the last one, which includes its right edge. The counts are integers.
\<close>

fun histogram :: "int list \<Rightarrow> int list \<Rightarrow> int list" where
  "histogram a [lo, hi] = [int (length (filter (\<lambda>v. lo \<le> v \<and> v \<le> hi) a))]"
| "histogram a (lo # hi # rest) =
     int (length (filter (\<lambda>v. lo \<le> v \<and> v < hi) a)) # histogram a (hi # rest)"
| "histogram a edges = []"

text \<open>
  \<open>(bins[:-1] + bins[1:]) / 2\<close> on integer edges: Python 2 integer division.
\<close>

definition bin_centres :: "int list \<Rightarrow> int list" where
  "bin_centres edges = map (\<lambda>(a, b). (a + b) div 2) (zip (butlast edges) (tl edges))"

text \<open>
  \<open>smooth_forward\<close>: for every \<open>i\<close> in \<open>range(0, len(y) - n)\<close> the sum of
  \<open>y[i:i+n]\<close>, divided by \<open>n\<close>. The occurrences are integers and so is \<open>n\<close>: the
  division is Python 2's integer division. \<open>smooth_loop\<close> is that loop with
  \<open>ys = y[i:]\<close> and the number of iterations left.
\<close>

fun smooth_loop :: "nat \<Rightarrow> nat \<Rightarrow> int list \<Rightarrow> int list" where
  "smooth_loop n 0 ys = []"
| "smooth_loop n (Suc left) ys =
     (sum_list (take n ys) div int n) # smooth_loop n left (tl ys)"

definition smooth_forward :: "int list \<Rightarrow> nat \<Rightarrow> int list" where
  "smooth_forward y n = smooth_loop n (length y - n) y"

text \<open>
  The first cut of \<open>getFitParameters\<close>:
  \<^verbatim>\<open>
  for i in range(len(y_smoothed)):
      if x[i] > 120:
          break
  y_smoothed[i] = 0
  \<close>
  The assignment stands after the loop. \<open>cut_scan\<close> gives the value of \<open>i\<close> when the
  loop ends: the first index with \<open>x[i] > 120\<close>, or the last index of
  \<open>y_smoothed\<close> when the loop runs out. With an empty \<open>y_smoothed\<close> the name
  \<open>i\<close> is unbound.
\<close>

fun cut_scan :: "int list \<Rightarrow> int list \<Rightarrow> nat \<Rightarrow> error + nat" where
  "cut_scan x [] i = Inr (i - 1)"
| "cut_scan [] (s # rest) i = Inl IndexError"
| "cut_scan (xv # x) (s # rest) i =
     (if xv > 120 then Inr i else cut_scan x rest (Suc i))"

definition zero_at_cut :: "int list \<Rightarrow> int list \<Rightarrow> error + int list" where
  "zero_at_cut x y_smoothed =
     (if y_smoothed = [] then Inl NameError
      else (case cut_scan x y_smoothed 0 of
              Inl e \<Rightarrow> Inl e
            | Inr i \<Rightarrow> Inr (y_smoothed[i := 0])))"

text \<open>\<open>a.reshape(len(a) / 2, 2).mean(axis=1)\<close> on a sequence of even length.\<close>

fun pair_means :: "real list \<Rightarrow> real list" where
  "pair_means (a # b # rest) = (a + b) / 2 # pair_means rest"
| "pair_means rest = []"

text \<open>\<open>np.diff\<close>.\<close>

fun np_diff :: "real list \<Rightarrow> real list" where
  "np_diff (a # b # rest) = (b - a) # np_diff (b # rest)"
| "np_diff rest = []"

text \<open>
  The second cut:
  \<^verbatim>\<open>
  for i in range(len(y_diff)):
      if x_rebinned[i] > 120:
          break
      y_diff[i] = 0
  \<close>
\<close>

fun zero_below_cut :: "real list \<Rightarrow> real list \<Rightarrow> error + real list" where
  "zero_below_cut xr [] = Inr []"
| "zero_below_cut [] (d # rest) = Inl IndexError"
| "zero_below_cut (xv # xr) (d # rest) =
     (if xv > 120 then Inr (d # rest)
      else (case zero_below_cut xr rest of
              Inl e \<Rightarrow> Inl e
            | Inr r \<Rightarrow> Inr (0 # r)))"

text \<open>
  \<open>np.convolve(a, [0.2, 0.2, 0.2, 0.2, 0.2], "same")\<close>: the full convolution has
  \<open>len(a) + 4\<close> entries, each the kernel applied to five neighbours of the zero-padded
  sequence; mode \<open>same\<close> keeps \<open>max(len(a), 5)\<close> of them, starting at
  \<open>(min(len(a), 5) - 1) / 2\<close>. An empty \<open>a\<close> raises.
\<close>

fun windows5 :: "real list \<Rightarrow> real list" where
  "windows5 (a # b # c # d # e # rest) =
     (0.2 * a + 0.2 * b + 0.2 * c + 0.2 * d + 0.2 * e) # windows5 (b # c # d # e # rest)"
| "windows5 rest = []"

definition convolve_same :: "real list \<Rightarrow> error + real list" where
  "convolve_same a =
     (if a = [] then Inl ValueError
      else (let m = length a;
                full = windows5 (replicate 4 0 @ a @ replicate 4 0)
            in Inr (take (max m 5) (drop ((min m 5 - 1) div 2) full))))"

text \<open>
  \<open>findBinNextMinimum\<close> and \<open>findBinNextMaximum\<close>: the loop runs over
  \<open>range(startBin, len(y) + 1)\<close>, so it raises on \<open>y[len(y)]\<close> when no return
  happened before. \<open>scan_min\<close> and \<open>scan_max\<close> are the loops with \<open>ys = y[i:]\<close>.
\<close>

fun scan_min :: "real \<Rightarrow> nat \<Rightarrow> real list \<Rightarrow> error + nat" where
  "scan_min minY i [] = Inl IndexError"
| "scan_min minY i (currentY # ys) =
     (if currentY < minY then scan_min currentY (Suc i) ys
      else if currentY > minY then Inr (i - 1)
      else scan_min minY (Suc i) ys)"

definition findBinNextMinimum :: "real list \<Rightarrow> nat \<Rightarrow> error + nat" where
  "findBinNextMinimum y startBin =
     (if startBin < length y then scan_min (y ! startBin) startBin (drop startBin y)
      else Inl IndexError)"

fun scan_max :: "real \<Rightarrow> nat \<Rightarrow> real list \<Rightarrow> error + nat" where
  "scan_max maxY i [] = Inl IndexError"
| "scan_max maxY i (currentY # ys) =
     (if currentY > maxY then scan_max currentY (Suc i) ys
      else if currentY < maxY then Inr (i - 1)
      else scan_max maxY (Suc i) ys)"

definition findBinNextMaximum :: "real list \<Rightarrow> nat \<Rightarrow> error + nat" where
  "findBinNextMaximum y startBin =
     (if startBin < length y then scan_max (y ! startBin) startBin (drop startBin y)
      else Inl IndexError)"

text \<open>\<open>xs[i]\<close> for an index that is not negative.\<close>

definition at_bin :: "real list \<Rightarrow> nat \<Rightarrow> error + real" where
  "at_bin xs i = (if i < length xs then Inr (xs ! i) else Inl IndexError)"

text \<open>The part of \<open>getFitParameters\<close> up to the first derivative.\<close>

definition rebin_x :: "int list \<Rightarrow> real list" where
  "rebin_x x =
     (let x_rebinned = (if length x mod 2 = 1
                        then x @ [last x + x ! 1 - x ! 0] else x)
      in pair_means (map real_of_int x_rebinned))"

definition smoothed_cut :: "int list \<Rightarrow> int list \<Rightarrow> error + real list" where
  "smoothed_cut x y =
     (let y_smoothed = smooth_forward y 5
      in (case zero_at_cut x y_smoothed of
            Inl e \<Rightarrow> Inl e
          | Inr y_smoothed \<Rightarrow> Inr (map real_of_int y_smoothed)))"

definition getFitParameters :: "int list \<Rightarrow> int list \<Rightarrow> error + real \<times> real \<times> real" where
  "getFitParameters x y =
     (if length x < 2 then Inl IndexError
      else
        let bias = real_of_int ((x ! 1 - x ! 0) * 2);
            x_rebinned = rebin_x x
        in case smoothed_cut x y of
             Inl e \<Rightarrow> Inl e
           | Inr y_smoothed \<Rightarrow>
               let y_smoothed = (if length y_smoothed mod 2 = 1
                                 then y_smoothed @ [0] else y_smoothed);
                   y_smoothed_rebinned = map (\<lambda>m. 2 * m) (pair_means y_smoothed);
                   y_diff = np_diff y_smoothed_rebinned
               in case zero_below_cut x_rebinned y_diff of
                    Inl e \<Rightarrow> Inl e
                  | Inr y_diff \<Rightarrow>
               case convolve_same y_diff of
                    Inl e \<Rightarrow> Inl e
                  | Inr y_diff_smoothed \<Rightarrow>
               case findBinNextMinimum y_diff_smoothed 0 of
                    Inl e \<Rightarrow> Inl e
                  | Inr binMinimum \<Rightarrow>
               case findBinNextMaximum y_diff_smoothed binMinimum of
                    Inl e \<Rightarrow> Inl e
                  | Inr binMaximum \<Rightarrow>
               case findBinNextMinimum y_diff_smoothed binMaximum of
                    Inl e \<Rightarrow> Inl e
                  | Inr binMinimum \<Rightarrow>
               case at_bin x_rebinned binMaximum of
                    Inl e \<Rightarrow> Inl e
                  | Inr maxX \<Rightarrow>
               case at_bin x_rebinned binMinimum of
                    Inl e \<Rightarrow> Inl e
                  | Inr minX \<Rightarrow>
                      Inr ((maxX + minX) / 2 + bias, maxX + bias, minX + bias))"

text \<open>
  What \<open>_pulse_gauss_fit\<close> returns: the list \<open>mpv\<close> at the end of its loop, or the
  tuple \<open>(width, fitResult, chiSquare)\<close> of the \<open>return\<close> inside the loop, with
  \<open>fitResult = [fitParameters, fitCovariance] = [np.zeros(3), np.zeros((3,3))]\<close> and
  \<open>chiSquare = -1\<close>.
\<close>

datatype fit_result =
    Mpv "pyfloat list"
  | NullFit real "real list" "real list list" int

text \<open>
  One pass of the loop body of \<open>_pulse_gauss_fit\<close>, for the pulse measurements
  \<open>pulsecounts[:, i]\<close> of one detector: an exception, the value of the \<open>return\<close>
  inside the loop (\<open>Inl\<close>), or the fitted mean that is appended to \<open>mpv\<close>
  (\<open>Inr\<close>). The value \<open>chiSquare\<close> computed after the fit is not used and is left
  out.
\<close>

definition fit_detector ::
  "externals \<Rightarrow> int list \<Rightarrow> int list \<Rightarrow> error + (fit_result + pyfloat)" where
  "fit_detector ext column bins =
     (let occurence = histogram column bins;
          pulsecount = bin_centres bins;
          average_pulsecount =
            sum_list (map (\<lambda>(pc, oc). pc * oc) (zip pulsecount occurence))
              div sum_list occurence
      in if average_pulsecount < 100 then Inl ValueError
         else
           case getFitParameters pulsecount occurence of
             Inl e \<Rightarrow> Inl e
           | Inr (peak, minRange, maxRange) \<Rightarrow>
               let width = peak - minRange
               in if width \<le> 40
                  then Inr (Inl (NullFit width [0, 0, 0]
                                   [[0, 0, 0], [0, 0, 0], [0, 0, 0]] (- 1)))
                  else
                    let fit_window =
                          filter (\<lambda>(pc, oc). \<not> real_of_int pc < minRange
                                             \<and> \<not> real_of_int pc > maxRange)
                            (zip pulsecount occurence);
                        fit_window_pulsecount = map (\<lambda>(pc, oc). real_of_int pc) fit_window;
                        fit_window_occurence = map (\<lambda>(pc, oc). real_of_int oc) fit_window
                    in case leastsq ext (16, peak, width)
                              fit_window_pulsecount fit_window_occurence of
                         Inl e \<Rightarrow> Inl e
                       | Inr (fitN, fitMean, fitWidth) \<Rightarrow> Inr (Inr fitMean))"

text \<open>
  The loop of \<open>_pulse_gauss_fit\<close> over the detectors \<open>i\<close> in
  \<open>range(len(pulsecounts[0]))\<close>. \<open>pulsecounts\<close> is a two-dimensional array, given by
  its rows. The \<open>return\<close> inside the loop ends the whole method.
\<close>

fun pulse_gauss_fit_loop ::
  "externals \<Rightarrow> int list list \<Rightarrow> int list \<Rightarrow> nat list \<Rightarrow> pyfloat list
     \<Rightarrow> error + fit_result" where
  "pulse_gauss_fit_loop ext pulsecounts bins [] mpv = Inr (Mpv mpv)"
| "pulse_gauss_fit_loop ext pulsecounts bins (i # detectors) mpv =
     (case fit_detector ext (map (\<lambda>row. row ! i) pulsecounts) bins of
        Inl e \<Rightarrow> Inl e
      | Inr (Inl returned) \<Rightarrow> Inr returned
      | Inr (Inr fitMean) \<Rightarrow>
          pulse_gauss_fit_loop ext pulsecounts bins detectors (mpv @ [fitMean]))"

definition pulse_gauss_fit ::
  "externals \<Rightarrow> int list list \<Rightarrow> int list \<Rightarrow> error + fit_result" where
  "pulse_gauss_fit ext pulsecounts bins =
     (case pulsecounts of
        [] \<Rightarrow> Inl IndexError
      | row # rows \<Rightarrow> pulse_gauss_fit_loop ext pulsecounts bins [0 ..< length row] [])"

text \<open>\<open>a / m\<close> for an integer array entry and a fitted value: a float division.\<close>

fun int_div_float :: "int \<Rightarrow> pyfloat \<Rightarrow> pyfloat" where
  "int_div_float a (Fin m) =
     (if m \<noteq> 0 then Fin (real_of_int a / m)
      else if 0 < a then PosInf
      else if a < 0 then NegInf
      else NaN)"
| "int_div_float a PosInf = Fin 0"
| "int_div_float a NegInf = Fin 0"
| "int_div_float a NaN = NaN"

text \<open>
  \<open>_process_pulseheights\<close> on the rows \<open>source.col('pulseheights')[:self.limit]\<close>.
  The division \<open>pulseheights / mpv\<close> broadcasts the list of fitted values over the
  rows; with the tuple of the null fit in place of that list the shapes do not match and
  NumPy raises.
\<close>

definition process_pulseheights ::
  "externals \<Rightarrow> int list list \<Rightarrow> error + pyfloat list list" where
  "process_pulseheights ext pulseheights =
     (let bins = arange 0 5000 10
      in (case pulse_gauss_fit ext pulseheights bins of
            Inl e \<Rightarrow> Inl e
          | Inr (NullFit width fitParameters fitCovariance chiSquare) \<Rightarrow> Inl ValueError
          | Inr (Mpv mpv) \<Rightarrow>
              Inr (map (\<lambda>row. map (\<lambda>(a, m). int_div_float a m) (zip row mpv))
                     pulseheights)))"

section \<open>The batch pipeline\<close>

text \<open>
  The object state of a processing class together with the group of the data file it
  works on. A node object (\<open>self.source\<close>, \<open>self._tmp_events\<close>) is a reference by
  the node's current name: renaming the node changes the name, removing the node closes
  it (\<open>None\<close>). \<open>self.limit\<close> is a row count or \<open>None\<close>; \<open>self.destination\<close>
  is not read before \<open>_check_destination\<close> has assigned it; \<open>self.indexes\<close> is
  used by the indexed classes only.
\<close>

record pstate =
  self_group :: group
  self_source :: "string option"
  self_limit :: "nat option"
  self_destination :: string
  self_tmp_events :: "string option"
  self_indexes :: "nat list"

text \<open>A step of the pipeline: the exception it raised, if any, and the state it left.\<close>

type_synonym outcome = "error option \<times> pstate"

definition and_then :: "outcome \<Rightarrow> (pstate \<Rightarrow> outcome) \<Rightarrow> outcome" where
  "and_then r f = (case r of (None, st) \<Rightarrow> f st | (Some e, st) \<Rightarrow> (Some e, st))"

text \<open>
  \<open>_get_source\<close>: the name of the node that becomes \<open>self.source\<close>.
\<close>

definition get_source :: "group \<Rightarrow> string option \<Rightarrow> error + string" where
  "get_source g source =
     (case source of
        None \<Rightarrow>
          if g ''_events'' \<noteq> None then Inr ''_events''
          else if g ''events'' \<noteq> None then Inr ''events''
          else Inl NoSuchNodeError
      | Some nm \<Rightarrow> if g nm \<noteq> None then Inr nm else Inl NoSuchNodeError)"

text \<open>\<open>__init__\<close>, with the \<open>indexes\<close> argument of the indexed classes.\<close>

definition init :: "group \<Rightarrow> nat list \<Rightarrow> string option \<Rightarrow> error + pstate" where
  "init g indexes source =
     (case get_source g source of
        Inl e \<Rightarrow> Inl e
      | Inr nm \<Rightarrow>
          Inr \<lparr>self_group = g, self_source = Some nm, self_limit = None,
               self_destination = [], self_tmp_events = None, self_indexes = indexes\<rparr>)"

text \<open>The table behind a node reference.\<close>

definition table_of :: "pstate \<Rightarrow> string option \<Rightarrow> error + table" where
  "table_of st ref =
     (case ref of
        None \<Rightarrow> Inl ClosedNodeError
      | Some nm \<Rightarrow>
          (case self_group st nm of
             None \<Rightarrow> Inl ClosedNodeError
           | Some (VLArray bs) \<Rightarrow> Inl TypeError
           | Some (Table tb) \<Rightarrow> Inr tb))"

text \<open>
  The table store: \<open>removeNode\<close> on a name of the group, and \<open>rename\<close> on a node
  object, which refuses a closed node and a name that is taken.
\<close>

definition removeNode :: "string \<Rightarrow> pstate \<Rightarrow> pstate" where
  "removeNode nm st =
     st\<lparr>self_group := (self_group st)(nm := None),
        self_source := (if self_source st = Some nm then None else self_source st),
        self_tmp_events := (if self_tmp_events st = Some nm then None
                            else self_tmp_events st)\<rparr>"

definition rename :: "string option \<Rightarrow> string \<Rightarrow> pstate \<Rightarrow> outcome" where
  "rename ref newname st =
     (case ref of
        None \<Rightarrow> (Some ClosedNodeError, st)
      | Some nm \<Rightarrow>
          if self_group st newname \<noteq> None then (Some NodeError, st)
          else
            (None,
             st\<lparr>self_group := (self_group st)(nm := None, newname := self_group st nm),
                self_source := (if self_source st = Some nm then Some newname
                                else self_source st),
                self_tmp_events := (if self_tmp_events st = Some nm then Some newname
                                    else self_tmp_events st)\<rparr>))"

text \<open>\<open>_check_destination\<close>.\<close>

definition check_destination :: "string option \<Rightarrow> bool \<Rightarrow> pstate \<Rightarrow> outcome" where
  "check_destination destination overwrite st =
     (if destination = Some ''_events'' then (Some RuntimeError, st)
      else
        let destination = (case destination of None \<Rightarrow> ''events'' | Some d \<Rightarrow> d)
        in case self_source st of
             None \<Rightarrow> (Some ClosedNodeError, st)
           | Some source_name \<Rightarrow>
               if source_name \<noteq> destination
                  \<and> self_group st destination \<noteq> None \<and> \<not> overwrite
               then (Some RuntimeError, st)
               else (None, st\<lparr>self_destination := destination\<rparr>))"

text \<open>
  \<open>_create_empty_results_table\<close>: \<open>if self.limit\<close> is false for \<open>None\<close> and
  for 0. The new table has the columns of \<open>ProcessedHisparcEvent\<close> and \<open>length\<close>
  default rows.
\<close>

definition create_empty_results_table :: "externals \<Rightarrow> pstate \<Rightarrow> outcome" where
  "create_empty_results_table ext st =
     (let len = (case self_limit st of
                   None \<Rightarrow> map_sum id (\<lambda>tb. length (t_rows tb)) (table_of st (self_source st))
                 | Some l \<Rightarrow>
                     if l \<noteq> 0 then Inr l
                     else map_sum id (\<lambda>tb. length (t_rows tb))
                            (table_of st (self_source st)))
      in case len of
           Inl e \<Rightarrow> (Some e, st)
         | Inr len \<Rightarrow>
             let st = (if self_group st ''_t_events'' \<noteq> None
                       then removeNode ''_t_events'' st else st);
                 tb = \<lparr>t_processed = True, t_rows = replicate len (dflt_row ext)\<rparr>
             in (None,
                 st\<lparr>self_group := (self_group st)(''_t_events'' \<mapsto> Table tb),
                    self_tmp_events := Some ''_t_events''\<rparr>))"

text \<open>
  \<open>_copy_events_into_table\<close>: every column named in \<open>source.colnames\<close> is
  assigned, \<open>table.cols.col[:limit] = source.cols.col[:limit]\<close>. The store refuses
  the assignment of a slice whose length differs from the number of rows addressed.
\<close>

definition copy_columns :: "bool \<Rightarrow> event \<Rightarrow> event \<Rightarrow> event" where
  "copy_columns source_processed src dst =
     (if source_processed then src
      else dst\<lparr>event_id := event_id src, ev_baseline := ev_baseline src,
               ev_pulseheights := ev_pulseheights src, ev_integrals := ev_integrals src,
               ev_traces := ev_traces src\<rparr>)"

definition slice_limit :: "nat option \<Rightarrow> 'a list \<Rightarrow> 'a list" where
  "slice_limit lmt xs = (case lmt of None \<Rightarrow> xs | Some l \<Rightarrow> take l xs)"

definition copy_events_into_table :: "pstate \<Rightarrow> outcome" where
  "copy_events_into_table st =
     (case table_of st (self_tmp_events st) of
        Inl e \<Rightarrow> (Some e, st)
      | Inr tb \<Rightarrow>
     case table_of st (self_source st) of
        Inl e \<Rightarrow> (Some e, st)
      | Inr source \<Rightarrow>
          let values = slice_limit (self_limit st) (t_rows source);
              addressed = slice_limit (self_limit st) (t_rows tb)
          in if length values \<noteq> length addressed then (Some ValueError, st)
             else
               (None,
                st\<lparr>self_group := (self_group st)
                     (the (self_tmp_events st) \<mapsto>
                        Table (tb\<lparr>t_rows :=
                          map (\<lambda>(src, dst). copy_columns (t_processed source) src dst)
                            (zip values addressed)
                          @ drop (length addressed) (t_rows tb)\<rparr>))\<rparr>))"

definition create_results_table :: "externals \<Rightarrow> pstate \<Rightarrow> outcome" where
  "create_results_table ext st =
     and_then (create_empty_results_table ext st) copy_events_into_table"

text \<open>
  \<open>_process_traces_from_event_list\<close>: the arrival times of every event, then
  \<open>np.where(np.isnan(result), -999, 1e9 * result)\<close>.
\<close>

fun to_ns :: "pyfloat \<Rightarrow> pyfloat" where
  "to_ns NaN = Fin (- 999)"
| "to_ns (Fin x) = Fin (10 ^ 9 * x)"
| "to_ns PosInf = PosInf"
| "to_ns NegInf = NegInf"

fun process_traces_from_event_list ::
  "pclass \<Rightarrow> externals \<Rightarrow> group \<Rightarrow> event list \<Rightarrow> error + pyfloat list list" where
  "process_traces_from_event_list cls ext g [] = Inr []"
| "process_traces_from_event_list cls ext g (ev # events) =
     (case reconstruct_time_from_traces cls ext g ev of
        Inl e \<Rightarrow> Inl e
      | Inr timings \<Rightarrow>
          (case process_traces_from_event_list cls ext g events of
             Inl e \<Rightarrow> Inl e
           | Inr result \<Rightarrow> Inr (map to_ns timings # result)))"

text \<open>
  \<open>table.itersequence(indexes)\<close>: the rows at the given indexes, in that order; the
  store fails on an index past the end of the table.
\<close>

fun itersequence :: "'a list \<Rightarrow> nat list \<Rightarrow> error + 'a list" where
  "itersequence rows [] = Inr []"
| "itersequence rows (i # indexes) =
     (if i < length rows
      then (case itersequence rows indexes of
              Inl e \<Rightarrow> Inl e
            | Inr rs \<Rightarrow> Inr (rows ! i # rs))
      else Inl IndexError)"

text \<open>
  \<open>process_traces\<close>: \<open>ProcessEvents\<close> reads \<open>source.iterrows(stop=self.limit)\<close>,
  \<open>ProcessIndexedEvents\<close> reads \<open>source.itersequence(self.indexes)\<close>.
\<close>

definition is_indexed :: "pclass \<Rightarrow> bool" where
  "is_indexed cls \<longleftrightarrow>
     cls = ProcessIndexedEvents \<or> cls = ProcessIndexedEventsWithLINT
     \<or> cls = ProcessIndexedEventsWithoutTraces"

definition without_traces :: "pclass \<Rightarrow> bool" where
  "without_traces cls \<longleftrightarrow>
     cls = ProcessEventsWithoutTraces \<or> cls = ProcessIndexedEventsWithoutTraces"

definition process_traces :: "pclass \<Rightarrow> externals \<Rightarrow> pstate \<Rightarrow> error + pyfloat list list" where
  "process_traces cls ext st =
     (case table_of st (self_source st) of
        Inl e \<Rightarrow> Inl e
      | Inr source \<Rightarrow>
          if is_indexed cls
          then (case itersequence (t_rows source) (self_indexes st) of
                  Inl e \<Rightarrow> Inl e
                | Inr events \<Rightarrow> process_traces_from_event_list cls ext (self_group st) events)
          else process_traces_from_event_list cls ext (self_group st)
                 (slice_limit (self_limit st) (t_rows source)))"

text \<open>
  The row-wise store of \<open>ProcessIndexedEvents._store_results_from_traces\<close>: the loop
  over \<open>izip(table.itersequence(self.indexes), timings)\<close>, which writes
  \<open>t1..t4\<close> of the row at each index and fails at an index past the end of the table,
  after the rows before it have been written.
\<close>

fun update_indexed ::
  "event list \<Rightarrow> nat list \<Rightarrow> pyfloat list list \<Rightarrow> error option \<times> event list" where
  "update_indexed rows (i # indexes) (tm # timings) =
     (if i < length rows
      then update_indexed (rows[i := (rows ! i)\<lparr>ev_t := tm\<rparr>]) indexes timings
      else (Some IndexError, rows))"
| "update_indexed rows indexes timings = (None, rows)"

text \<open>
  \<open>_store_results_from_traces\<close> of the three families of classes. The column-wise
  store of \<open>ProcessEvents\<close> takes \<open>timings[:, idx]\<close>, which raises on the
  one-dimensional array of an empty result, and assigns whole columns.
\<close>

definition store_results_from_traces :: "pclass \<Rightarrow> externals \<Rightarrow> pstate \<Rightarrow> outcome" where
  "store_results_from_traces cls ext st =
     (if without_traces cls then (None, st)
      else
        case table_of st (self_tmp_events st) of
          Inl e \<Rightarrow> (Some e, st)
        | Inr tb \<Rightarrow>
        case process_traces cls ext st of
          Inl e \<Rightarrow> (Some e, st)
        | Inr timings \<Rightarrow>
            if is_indexed cls
            then (case update_indexed (t_rows tb) (self_indexes st) timings of
                    (err, rows) \<Rightarrow>
                      (err, st\<lparr>self_group := (self_group st)
                              (the (self_tmp_events st) \<mapsto> Table (tb\<lparr>t_rows := rows\<rparr>))\<rparr>))
            else if timings = [] then (Some IndexError, st)
            else if length timings \<noteq> length (t_rows tb) then (Some ValueError, st)
            else
              (None,
               st\<lparr>self_group := (self_group st)
                    (the (self_tmp_events st) \<mapsto>
                       Table (tb\<lparr>t_rows :=
                         map (\<lambda>(ev, tm). ev\<lparr>ev_t := tm\<rparr>) (zip (t_rows tb) timings)\<rparr>))\<rparr>))"

text \<open>
  \<open>_store_number_of_particles\<close>, the same in every class: the particle counts of
  \<open>source.col('pulseheights')[:self.limit]\<close>, assigned to whole columns.
\<close>

definition store_number_of_particles :: "externals \<Rightarrow> pstate \<Rightarrow> outcome" where
  "store_number_of_particles ext st =
     (case table_of st (self_tmp_events st) of
        Inl e \<Rightarrow> (Some e, st)
      | Inr tb \<Rightarrow>
      case table_of st (self_source st) of
        Inl e \<Rightarrow> (Some e, st)
      | Inr source \<Rightarrow>
      case process_pulseheights ext
             (map ev_pulseheights (slice_limit (self_limit st) (t_rows source))) of
        Inl e \<Rightarrow> (Some e, st)
      | Inr n_particles \<Rightarrow>
          if length n_particles \<noteq> length (t_rows tb) then (Some ValueError, st)
          else
            (None,
             st\<lparr>self_group := (self_group st)
                  (the (self_tmp_events st) \<mapsto>
                     Table (tb\<lparr>t_rows :=
                       map (\<lambda>(ev, np). ev\<lparr>ev_n := np\<rparr>) (zip (t_rows tb) n_particles)\<rparr>))\<rparr>))"

text \<open>\<open>_move_results_table_into_destination\<close>.\<close>

definition move_results_table_into_destination :: "pstate \<Rightarrow> outcome" where
  "move_results_table_into_destination st =
     (case self_source st of
        None \<Rightarrow> (Some ClosedNodeError, st)
      | Some source_name \<Rightarrow>
          and_then
            (if source_name = ''events'' then rename (self_source st) ''_events'' st
             else (None, st))
            (\<lambda>st.
               let st = (if self_group st (self_destination st) \<noteq> None
                         then removeNode (self_destination st) st else st)
               in rename (self_tmp_events st) (self_destination st) st))"

text \<open>\<open>process_and_store_results\<close>.\<close>

definition process_and_store_results ::
  "pclass \<Rightarrow> externals \<Rightarrow> string option \<Rightarrow> bool \<Rightarrow> nat option \<Rightarrow> pstate \<Rightarrow> outcome" where
  "process_and_store_results cls ext destination overwrite lmt st =
     and_then
       (and_then
          (and_then
             (and_then
                (check_destination destination overwrite (st\<lparr>self_limit := lmt\<rparr>))
                (create_results_table ext))
             (store_results_from_traces cls ext))
          (store_number_of_particles ext))
       move_results_table_into_destination"

section \<open>Example data\<close>

text \<open>
  A station group for the concrete runs below: ten raw events with pulse height 205 in
  every detector and one stored trace, and stand-ins for the libraries (the identity
  for \<open>zlib.decompress\<close>, a \<open>leastsq\<close> that returns its start values, and
  \<open>-999\<close> as the default of the derived columns).
\<close>

definition example_ext :: externals where
  "example_ext =
     \<lparr>zlib_decompress = Some,
      leastsq = (\<lambda>p xs ys. Inr (Fin (fst p), Fin (fst (snd p)), Fin (snd (snd p)))),
      dflt_row = \<lparr>event_id = 0, ev_baseline = [0, 0, 0, 0], ev_pulseheights = [0, 0, 0, 0],
        ev_integrals = [0, 0, 0, 0], ev_traces = [- 1, - 1, - 1, - 1],
        ev_t = [Fin (- 999), Fin (- 999), Fin (- 999), Fin (- 999)],
        ev_n = [Fin (- 999), Fin (- 999), Fin (- 999), Fin (- 999)]\<rparr>\<rparr>"

definition example_event :: "nat \<Rightarrow> event" where
  "example_event j =
     \<lparr>event_id = j, ev_baseline = [200, 200, 200, 200],
      ev_pulseheights = [205, 205, 205, 205], ev_integrals = [2000, 2000, 2000, 2000],
      ev_traces = [int j, int j, int j, int j], ev_t = [], ev_n = []\<rparr>"

definition example_blobs :: "string list" where
  "example_blobs =
     [''200,230,'', ''200,200,230,'', ''230,'', ''200,230,'', ''200,230,'',
      ''200,200,200,230,'', ''200,230,'', ''200,230,'', ''200,230,'', ''200,230,'']"

definition example_table :: table where
  "example_table =
     \<lparr>t_processed = False,
      t_rows = [example_event 0, example_event 1, example_event 2, example_event 3,
                example_event 4, example_event 5, example_event 6, example_event 7,
                example_event 8, example_event 9]\<rparr>"

definition example_group :: "string \<Rightarrow> group" where
  "example_group nm = [nm \<mapsto> Table example_table, ''blobs'' \<mapsto> VLArray example_blobs]"

definition example_state :: "string \<Rightarrow> nat list \<Rightarrow> pstate" where
  "example_state nm indexes =
     \<lparr>self_group = example_group nm, self_source = Some nm, self_limit = None,
      self_destination = [], self_tmp_events = None, self_indexes = indexes\<rparr>"


section \<open>Two detector populations, evaluated\<close>

text \<open>
  Ten pulse heights of 205 give the fit window \<open>[150, 250]\<close> around the peak 200, of
  width 50. Ten pulse heights of 205 and twenty of 265 give a window of width 10.
\<close>

lemma fit_detector_narrow_peak:
  "fit_detector example_ext [205, 205, 205, 205, 205, 205, 205, 205, 205, 205]
     (arange 0 5000 10) = Inr (Inr (Fin 200))"
  by code_simp

lemma fit_detector_two_peaks:
  "fit_detector example_ext
     [205, 205, 205, 205, 205, 205, 205, 205, 205, 205,
      265, 265, 265, 265, 265, 265, 265, 265, 265, 265,
      265, 265, 265, 265, 265, 265, 265, 265, 265, 265]
     (arange 0 5000 10)
   = Inr (Inl (NullFit 10 [0, 0, 0] [[0, 0, 0], [0, 0, 0], [0, 0, 0]] (- 1)))"
  by code_simp

section \<open>Properties of the arrival-time reconstruction\<close>

lemma scan_nearest_none:
  "\<forall>t \<in> set ts. t < threshold \<Longrightarrow> scan_nearest threshold i ts = NaN"
  by (induction ts arbitrary: i) auto

lemma scan_lint_none:
  "\<forall>t \<in> set ts. t < threshold \<Longrightarrow> scan_lint trace threshold i ts = NaN"
  by (induction ts arbitrary: i) auto

lemma scan_nearest_first:
  "k < length ts \<Longrightarrow> ts ! k \<ge> threshold \<Longrightarrow> \<forall>j < k. ts ! j < threshold
   \<Longrightarrow> scan_nearest threshold i ts = Fin (real (i + k))"
proof (induction ts arbitrary: i k)
  case Nil
  then show ?case by simp
next
  case (Cons t ts)
  show ?case
  proof (cases k)
    case 0
    with Cons.prems show ?thesis by simp
  next
    case (Suc k')
    from Cons.prems Suc have low: "t < threshold" by auto
    from Cons.prems Suc have "k' < length ts" "ts ! k' \<ge> threshold"
      "\<forall>j < k'. ts ! j < threshold" by auto
    from Cons.IH [OF this, of "Suc i"] low Suc show ?thesis by simp
  qed
qed

lemma scan_lint_first:
  "k < length ts \<Longrightarrow> ts ! k \<ge> threshold \<Longrightarrow> \<forall>j < k. ts ! j < threshold
   \<Longrightarrow> scan_lint trace threshold i ts =
       fadd_int (fdiv (threshold - trace_at trace (int (i + k) - 1))
                      (trace_at trace (int (i + k)) - trace_at trace (int (i + k) - 1)))
                (int (i + k) - 1)"
proof (induction ts arbitrary: i k)
  case Nil
  then show ?case by simp
next
  case (Cons t ts)
  show ?case
  proof (cases k)
    case 0
    with Cons.prems show ?thesis by (simp add: Let_def)
  next
    case (Suc k')
    from Cons.prems Suc have low: "t < threshold" by auto
    from Cons.prems Suc have "k' < length ts" "ts ! k' \<ge> threshold"
      "\<forall>j < k'. ts ! j < threshold" by auto
    from Cons.IH [OF this, of "Suc i"] low Suc show ?thesis by simp
  qed
qed

text \<open>
  Claim C4. For every waveform and integer baseline, the nearest-sample strategy returns
  \<open>k * 2.5e-9\<close> seconds, where \<open>k\<close> is the index of the first sample that is at least
  \<open>baseline + 20\<close>, and it returns not-a-number when no sample reaches that threshold;
  the linear-interpolation strategy returns not-a-number in that case as well.
\<close>

theorem reconstruct_time_first_crossing:
  "(k < length trace \<and> trace ! k \<ge> baseline + 20 \<and> (\<forall>j < k. trace ! j < baseline + 20)
      \<longrightarrow> reconstruct_time_from_trace trace baseline = Fin (real k * (25 / 10 ^ 10)))
   \<and> ((\<forall>t \<in> set trace. t < baseline + 20)
      \<longrightarrow> reconstruct_time_from_trace trace baseline = NaN
        \<and> reconstruct_time_from_trace_LINT trace baseline = NaN)"
proof (intro conjI impI)
  assume "k < length trace \<and> trace ! k \<ge> baseline + 20
          \<and> (\<forall>j < k. trace ! j < baseline + 20)"
  then have "scan_nearest (baseline + 20) 0 trace = Fin (real (0 + k))"
    by (intro scan_nearest_first) auto
  then show "reconstruct_time_from_trace trace baseline = Fin (real k * (25 / 10 ^ 10))"
    by (simp add: reconstruct_time_from_trace_def ADC_THRESHOLD_def
        ADC_TIME_PER_SAMPLE_def)
next
  assume none: "\<forall>t \<in> set trace. t < baseline + 20"
  from scan_nearest_none [OF none]
  show "reconstruct_time_from_trace trace baseline = NaN"
    by (simp add: reconstruct_time_from_trace_def ADC_THRESHOLD_def)
  from scan_lint_none [OF none]
  show "reconstruct_time_from_trace_LINT trace baseline = NaN"
    by (simp add: reconstruct_time_from_trace_LINT_def ADC_THRESHOLD_def)
qed

theorem reconstruct_time_first_crossing_witness:
  "reconstruct_time_from_trace [200, 203, 219, 220, 400, 210] 200 = Fin (3 * (25 / 10 ^ 10))
   \<and> reconstruct_time_from_trace [200, 203, 219, 201] 200 = NaN
   \<and> reconstruct_time_from_trace_LINT [200, 203, 219, 201] 200 = NaN"
  using reconstruct_time_first_crossing [of 3 "[200, 203, 219, 220, 400, 210]" 200]
    reconstruct_time_first_crossing [of 0 "[200, 203, 219, 201]" 200]
  by (simp add: nth_Cons' less_Suc_eq)

text \<open>
  Claim C5. When the first threshold crossing is at a sample index \<open>k \<ge> 1\<close> (so the sample
  before it is strictly below the threshold and the crossing sample strictly above that
  one), the linear-interpolation time is at most the nearest-sample time and less than one
  sample period (2.5 ns) before it. For a waveform that is flat below the threshold for
  \<open>N\<close> samples and then jumps to twice the threshold, the nearest-sample time is exactly
  \<open>N * 2.5e-9\<close> seconds: both for a jump to \<open>baseline + 2 * 20\<close> and, when that sample
  is a crossing at all, for a jump to \<open>2 * (baseline + 20)\<close>.
\<close>

theorem lint_within_one_sample_of_nearest:
  "(1 \<le> k \<and> k < length trace \<and> trace ! k \<ge> baseline + ADC_THRESHOLD
      \<and> (\<forall>j < k. trace ! j < baseline + ADC_THRESHOLD)
      \<longrightarrow> (\<exists>a b. reconstruct_time_from_trace_LINT trace baseline = Fin a
              \<and> reconstruct_time_from_trace trace baseline = Fin b
              \<and> a \<le> b \<and> b - a < 25 / 10 ^ 10))
   \<and> (v < baseline + ADC_THRESHOLD
      \<longrightarrow> reconstruct_time_from_trace
            (replicate N v @ (baseline + 2 * ADC_THRESHOLD) # rest) baseline
          = Fin (real N * (25 / 10 ^ 10)))
   \<and> (v < baseline + ADC_THRESHOLD \<and> baseline + ADC_THRESHOLD \<le> 2 * (baseline + ADC_THRESHOLD)
      \<longrightarrow> reconstruct_time_from_trace
            (replicate N v @ (2 * (baseline + ADC_THRESHOLD)) # rest) baseline
          = Fin (real N * (25 / 10 ^ 10)))"
proof (intro conjI impI)
  let ?thr = "baseline + ADC_THRESHOLD"
  assume h: "1 \<le> k \<and> k < length trace \<and> trace ! k \<ge> ?thr \<and> (\<forall>j < k. trace ! j < ?thr)"
  define y0 where "y0 = trace ! (k - 1)"
  define y1 where "y1 = trace ! k"
  from h have y0: "y0 < ?thr" and y1: "?thr \<le> y1"
    by (auto simp: y0_def y1_def)
  have at0: "trace_at trace (int (0 + k) - 1) = y0"
    using h by (simp add: trace_at_def y0_def nat_diff_distrib')
  have at1: "trace_at trace (int (0 + k)) = y1"
    by (simp add: trace_at_def y1_def)
  define fr where "fr = real_of_int (?thr - y0) / real_of_int (y1 - y0)"
  have d: "fdiv (?thr - y0) (y1 - y0) = Fin fr"
    using y0 y1 by (simp add: fdiv_def fr_def)
  have fr_pos: "0 < fr" and fr_le: "fr \<le> 1"
    using y0 y1 by (simp_all add: fr_def)
  from h have "scan_lint trace ?thr 0 trace =
      fadd_int (fdiv (?thr - trace_at trace (int (0 + k) - 1))
                     (trace_at trace (int (0 + k)) - trace_at trace (int (0 + k) - 1)))
               (int (0 + k) - 1)"
    by (intro scan_lint_first) auto
  then have l: "scan_lint trace ?thr 0 trace = Fin (fr + (real k - 1))"
    using h by (simp only: at0 at1 d fadd_int.simps) simp
  from h have n: "scan_nearest ?thr 0 trace = Fin (real (0 + k))"
    by (intro scan_nearest_first) auto
  have L: "reconstruct_time_from_trace_LINT trace baseline
             = Fin ((fr + (real k - 1)) * (25 / 10 ^ 10))"
    using l by (simp add: reconstruct_time_from_trace_LINT_def ADC_TIME_PER_SAMPLE_def)
  have N: "reconstruct_time_from_trace trace baseline = Fin (real k * (25 / 10 ^ 10))"
    using n by (simp add: reconstruct_time_from_trace_def ADC_TIME_PER_SAMPLE_def)
  have le: "(fr + (real k - 1)) * (25 / 10 ^ 10) \<le> real k * (25 / 10 ^ 10)"
    using fr_le by simp
  have "real k * (25 / 10 ^ 10) - (fr + (real k - 1)) * (25 / 10 ^ 10)
          = (1 - fr) * (25 / 10 ^ 10)"
    by (simp only: left_diff_distrib [symmetric]) simp
  also have "\<dots> < 25 / 10 ^ 10"
    using fr_pos by simp
  finally have lt: "real k * (25 / 10 ^ 10) - (fr + (real k - 1)) * (25 / 10 ^ 10)
                      < 25 / 10 ^ 10" .
  from L N le lt
  show "\<exists>a b. reconstruct_time_from_trace_LINT trace baseline = Fin a
              \<and> reconstruct_time_from_trace trace baseline = Fin b
              \<and> a \<le> b \<and> b - a < 25 / 10 ^ 10"
    by blast
next
  let ?thr = "baseline + ADC_THRESHOLD"
  let ?tr = "replicate N v @ (baseline + 2 * ADC_THRESHOLD) # rest"
  assume v: "v < ?thr"
  have "scan_nearest ?thr 0 ?tr = Fin (real (0 + N))"
  proof (rule scan_nearest_first)
    show "N < length ?tr" by simp
    show "?thr \<le> ?tr ! N" by (simp add: nth_append ADC_THRESHOLD_def)
    show "\<forall>j < N. ?tr ! j < ?thr" using v by (simp add: nth_append)
  qed
  then show "reconstruct_time_from_trace ?tr baseline = Fin (real N * (25 / 10 ^ 10))"
    by (simp add: reconstruct_time_from_trace_def ADC_TIME_PER_SAMPLE_def)
next
  let ?thr = "baseline + ADC_THRESHOLD"
  let ?tr = "replicate N v @ (2 * ?thr) # rest"
  assume v: "v < ?thr \<and> ?thr \<le> 2 * ?thr"
  have "scan_nearest ?thr 0 ?tr = Fin (real (0 + N))"
  proof (rule scan_nearest_first)
    show "N < length ?tr" by simp
    show "?thr \<le> ?tr ! N" using v by (simp add: nth_append)
    show "\<forall>j < N. ?tr ! j < ?thr" using v by (simp add: nth_append)
  qed
  then show "reconstruct_time_from_trace ?tr baseline = Fin (real N * (25 / 10 ^ 10))"
    by (simp add: reconstruct_time_from_trace_def ADC_TIME_PER_SAMPLE_def)
qed

theorem lint_within_one_sample_of_nearest_witness:
  "(\<exists>a b. reconstruct_time_from_trace_LINT [200, 210, 240, 300] 200 = Fin a
        \<and> reconstruct_time_from_trace [200, 210, 240, 300] 200 = Fin b
        \<and> a \<le> b \<and> b - a < 25 / 10 ^ 10)
   \<and> reconstruct_time_from_trace (replicate 3 205 @ 240 # [230, 210]) 200
       = Fin (3 * (25 / 10 ^ 10))
   \<and> reconstruct_time_from_trace (replicate 3 205 @ 440 # [230, 210]) 200
       = Fin (3 * (25 / 10 ^ 10))"
  using lint_within_one_sample_of_nearest [of 2 "[200, 210, 240, 300]" 200 205 3 "[230, 210]"]
  by (simp add: ADC_THRESHOLD_def nth_Cons' less_Suc_eq)
section \<open>Properties of the trace decoder\<close>

lemma digit_val_digit: "d < 10 \<Longrightarrow> digit_val (''0123456789'' ! d) = Some (int d)"
proof -
  assume "d < 10"
  then have "d \<in> {0, 1, 2, 3, 4, 5, 6, 7, 8, 9}" by auto
  then show ?thesis by (auto simp: digit_val_def)
qed

lemma digit_char_plain:
  "d < 10 \<Longrightarrow> \<not> is_space (''0123456789'' ! d) \<and> ''0123456789'' ! d \<noteq> CHR '',''
     \<and> ''0123456789'' ! d \<noteq> CHR ''-'' \<and> ''0123456789'' ! d \<noteq> CHR ''+''"
proof -
  assume "d < 10"
  then have "d \<in> {0, 1, 2, 3, 4, 5, 6, 7, 8, 9}" by auto
  then show ?thesis by (auto simp: is_space_def)
qed

lemma digits_value_append:
  "digits_value acc (xs @ ys) =
     (case digits_value acc xs of None \<Rightarrow> None | Some v \<Rightarrow> digits_value v ys)"
  by (induction xs arbitrary: acc) (auto split: option.splits)

lemma decimal_unfold:
  "decimal m = (if m < 10 then [''0123456789'' ! m]
                else decimal (m div 10) @ [''0123456789'' ! (m mod 10)])"
  by (rule decimal.simps)

lemma digits_value_decimal: "digits_value 0 (decimal m) = Some (int m)"
proof (induction m rule: decimal.induct)
  case (1 m)
  show ?case
  proof (cases "m < 10")
    case True
    then show ?thesis
      by (subst decimal_unfold) (simp add: digit_val_digit del: nth_Cons_numeral)
  next
    case False
    have d: "digit_val (''0123456789'' ! (m mod 10)) = Some (int (m mod 10))"
      by (rule digit_val_digit) simp
    have "int (m div 10) * 10 + int (m mod 10) = int m"
      by presburger
    with False 1 d show ?thesis
      by (subst decimal_unfold) (simp add: digits_value_append mult.commute)
  qed
qed

lemma decimal_chars:
  "decimal m \<noteq> [] \<and> (\<forall>c \<in> set (decimal m). \<not> is_space c \<and> c \<noteq> CHR '','' \<and> c \<noteq> CHR ''-'' \<and> c \<noteq> CHR ''+'')"
proof (induction m rule: decimal.induct)
  case (1 m)
  show ?case
  proof (cases "m < 10")
    case True
    with digit_char_plain [of m] show ?thesis
      by (subst (1 2) decimal_unfold) (simp del: nth_Cons_numeral)
  next
    case False
    have "m mod 10 < 10" by simp
    from digit_char_plain [OF this] False 1 show ?thesis
      by (subst (1 2) decimal_unfold) (auto simp del: nth_Cons_numeral)
  qed
qed

lemma strip_plain: "\<forall>c \<in> set s. \<not> is_space c \<Longrightarrow> strip s = s"
proof -
  assume a: "\<forall>c \<in> set s. \<not> is_space c"
  have 1: "dropWhile is_space s = s"
    using a by (cases s) auto
  have 2: "dropWhile is_space (rev s) = rev s"
    using a by (cases "rev s") (auto simp: rev_eq_Cons_iff)
  show ?thesis by (simp add: strip_def 1 2)
qed

lemma py_int_show_int: "py_int (show_int v) = Inr v"
proof (cases "v < 0")
  case True
  have sp: "\<not> is_space (CHR ''-'')" by (simp add: is_space_def)
  have "strip (show_int v) = show_int v"
    using decimal_chars [of "nat (- v)"] sp True
    by (intro strip_plain) (auto simp: show_int_def)
  then show ?thesis
    using True decimal_chars [of "nat (- v)"] digits_value_decimal [of "nat (- v)"]
    by (simp add: py_int_def show_int_def)
next
  case False
  have st: "strip (show_int v) = show_int v"
    using decimal_chars [of "nat v"] False
    by (intro strip_plain) (auto simp: show_int_def)
  obtain c r where cr: "decimal (nat v) = c # r"
    using decimal_chars [of "nat v"] by (cases "decimal (nat v)") auto
  with decimal_chars [of "nat v"] have c: "c \<noteq> CHR ''-''" "c \<noteq> CHR ''+''" by auto
  show ?thesis
    using False st cr c digits_value_decimal [of "nat v"]
    by (simp add: py_int_def show_int_def)
qed

lemma show_int_chars: "show_int v \<noteq> [] \<and> CHR '','' \<notin> set (show_int v)"
  using decimal_chars [of "nat v"] decimal_chars [of "nat (- v)"]
  by (auto simp: show_int_def)

lemma split_comma_nonempty: "split_comma s \<noteq> []"
  by (induction s) (auto split: list.splits)

lemma split_comma_field:
  "CHR '','' \<notin> set f \<Longrightarrow> split_comma (f @ CHR '','' # rest) = f # split_comma rest"
  by (induction f) auto

lemma split_comma_plain: "CHR '','' \<notin> set f \<Longrightarrow> split_comma f = [f]"
  by (induction f) auto


lemma split_comma_join:
  "fs \<noteq> [] \<Longrightarrow> \<forall>f \<in> set fs. CHR '','' \<notin> set f \<Longrightarrow>
   split_comma (join_comma fs @ CHR '','' # rest) = fs @ split_comma rest"
  by (induction fs rule: join_comma.induct) (simp_all add: split_comma_field)

lemma split_comma_join_plain:
  "fs \<noteq> [] \<Longrightarrow> \<forall>f \<in> set fs. CHR '','' \<notin> set f \<Longrightarrow>
   split_comma (join_comma fs) = fs"
  by (induction fs rule: join_comma.induct)
    (simp_all add: split_comma_field split_comma_plain)

lemma ints_of_show: "ints_of (map show_int ns) = Inr ns"
  by (induction ns) (simp_all add: py_int_show_int)

lemma ints_of_append:
  "ints_of (xs @ ys) =
     (case ints_of xs of
        Inl e \<Rightarrow> Inl e
      | Inr vs \<Rightarrow> (case ints_of ys of Inl e \<Rightarrow> Inl e | Inr ws \<Rightarrow> Inr (vs @ ws)))"
  by (induction xs) (auto split: sum.splits)

lemma py_int_empty: "py_int [] = Inl ValueError"
  by (simp add: py_int_def strip_def)

lemma decode_fields_trailing:
  assumes "ns \<noteq> []"
  shows "decode_fields (join_comma (map show_int ns) @ '','') = Inr ns"
proof -
  have "split_comma (join_comma (map show_int ns) @ '','') = map show_int ns @ [[]]"
    using assms show_int_chars by (subst split_comma_join) auto
  then show ?thesis
    by (simp add: decode_fields_def ints_of_show)
qed

lemma decode_fields_plain:
  "decode_fields (join_comma (map show_int ns)) = Inr ns"
proof (cases "ns = []")
  case True
  then show ?thesis by (simp add: decode_fields_def)
next
  case False
  then have "split_comma (join_comma (map show_int ns)) = map show_int ns"
    using show_int_chars by (subst split_comma_join_plain) auto
  moreover have "last (map show_int ns) \<noteq> []"
    using False show_int_chars by (simp add: last_map)
  ultimately show ?thesis
    by (simp add: decode_fields_def ints_of_show)
qed

lemma decode_fields_two_trailing:
  assumes "ns \<noteq> []"
  shows "decode_fields (join_comma (map show_int ns) @ '',,'') = Inl ValueError"
proof -
  have "split_comma (join_comma (map show_int ns) @ '',,'') = map show_int ns @ [[], []]"
    using assms show_int_chars by (subst split_comma_join) auto
  then have "decode_fields (join_comma (map show_int ns) @ '',,'')
               = ints_of (map show_int ns @ [[]])"
    by (simp add: decode_fields_def butlast_append)
  then show ?thesis
    by (simp add: ints_of_append ints_of_show py_int_empty)
qed

text \<open>
  Claim C6. The trace decoder, applied to a blob that decompresses to a comma-delimited
  sequence of decimal integers, returns those integers in order, with or without one
  trailing delimiter: exactly one trailing empty field is discarded (a second one makes
  \<open>int('')\<close> raise). In particular the text \<open>12,34,56,\<close> decodes to
  \<open>[12, 34, 56]\<close>.
\<close>

theorem get_trace_decodes_delimited_integers:
  "g ''blobs'' = Some (VLArray blobs) \<and> py_index blobs idx = Inr blob \<longrightarrow>
     (zlib_decompress ext blob = Some (join_comma (map show_int ns))
        \<longrightarrow> get_trace ext g idx = Inr ns)
   \<and> (ns \<noteq> [] \<and> zlib_decompress ext blob = Some (join_comma (map show_int ns) @ '','')
        \<longrightarrow> get_trace ext g idx = Inr ns)
   \<and> (ns \<noteq> [] \<and> zlib_decompress ext blob = Some (join_comma (map show_int ns) @ '',,'')
        \<longrightarrow> get_trace ext g idx = Inl ValueError)
   \<and> (zlib_decompress ext blob = Some ''12,34,56,''
        \<longrightarrow> get_trace ext g idx = Inr [12, 34, 56])"
proof (intro impI conjI)
  assume st: "g ''blobs'' = Some (VLArray blobs) \<and> py_index blobs idx = Inr blob"
  {
    fix s assume "zlib_decompress ext blob = Some s"
    with st have "get_trace ext g idx = decode_fields s"
      by (simp add: get_trace_def group_blobs_def)
  } note body = this
  show "get_trace ext g idx = Inr ns"
    if "zlib_decompress ext blob = Some (join_comma (map show_int ns))"
    using body [OF that] by (simp add: decode_fields_plain)
  show "get_trace ext g idx = Inr ns"
    if "ns \<noteq> [] \<and> zlib_decompress ext blob = Some (join_comma (map show_int ns) @ '','')"
    using that body [of "join_comma (map show_int ns) @ '',''"]
    by (simp add: decode_fields_trailing)
  show "get_trace ext g idx = Inl ValueError"
    if "ns \<noteq> [] \<and> zlib_decompress ext blob = Some (join_comma (map show_int ns) @ '',,'')"
    using that body [of "join_comma (map show_int ns) @ '',,''"]
    by (simp add: decode_fields_two_trailing)
  show "get_trace ext g idx = Inr [12, 34, 56]"
    if "zlib_decompress ext blob = Some ''12,34,56,''"
    using body [OF that]
    by (simp add: decode_fields_def py_int_def strip_def is_space_def digit_val_def)
qed

theorem get_trace_decodes_delimited_integers_witness:
  "get_trace \<lparr>zlib_decompress = Some, leastsq = (\<lambda>p xs ys. Inl ValueError),
              dflt_row = \<lparr>event_id = 0, ev_baseline = [], ev_pulseheights = [],
                ev_integrals = [], ev_traces = [], ev_t = [], ev_n = []\<rparr>\<rparr>
     [''blobs'' \<mapsto> VLArray [''7,-8'', ''12,34,56,'', ''3,,'']] 0 = Inr [7, - 8]
   \<and> get_trace \<lparr>zlib_decompress = Some, leastsq = (\<lambda>p xs ys. Inl ValueError),
              dflt_row = \<lparr>event_id = 0, ev_baseline = [], ev_pulseheights = [],
                ev_integrals = [], ev_traces = [], ev_t = [], ev_n = []\<rparr>\<rparr>
     [''blobs'' \<mapsto> VLArray [''7,-8'', ''12,34,56,'', ''3,,'']] 1 = Inr [12, 34, 56]
   \<and> get_trace \<lparr>zlib_decompress = Some, leastsq = (\<lambda>p xs ys. Inl ValueError),
              dflt_row = \<lparr>event_id = 0, ev_baseline = [], ev_pulseheights = [],
                ev_integrals = [], ev_traces = [], ev_t = [], ev_n = []\<rparr>\<rparr>
     [''blobs'' \<mapsto> VLArray [''7,-8'', ''12,34,56,'', ''3,,'']] 2 = Inl ValueError"
proof -
  let ?ext = "\<lparr>zlib_decompress = Some, leastsq = (\<lambda>p xs ys. Inl ValueError),
              dflt_row = \<lparr>event_id = 0, ev_baseline = [], ev_pulseheights = [],
                ev_integrals = [], ev_traces = [], ev_t = [], ev_n = []\<rparr>\<rparr>"
  let ?bs = "[''7,-8'', ''12,34,56,'', ''3,,'']"
  let ?g = "[''blobs'' \<mapsto> VLArray ?bs]"
  have a: "join_comma (map show_int [7, - 8]) = ''7,-8''"
    by (simp add: show_int_def decimal.simps)
  have b: "join_comma (map show_int [12, 34, 56]) @ '','' = ''12,34,56,''"
    by (simp add: show_int_def decimal.simps)
  have c: "join_comma (map show_int [3]) @ '',,'' = ''3,,''"
    by (simp add: show_int_def decimal.simps)
  from get_trace_decodes_delimited_integers [of ?g ?bs 0 "''7,-8''" ?ext "[7, - 8]"] a
  have 1: "get_trace ?ext ?g 0 = Inr [7, - 8]"
    by (simp add: py_index_def)
  from get_trace_decodes_delimited_integers [of ?g ?bs 1 "''12,34,56,''" ?ext "[12, 34, 56]"] b
  have 2: "get_trace ?ext ?g 1 = Inr [12, 34, 56]"
    by (simp add: py_index_def)
  from get_trace_decodes_delimited_integers [of ?g ?bs 2 "''3,,''" ?ext "[3]"] c
  have 3: "get_trace ?ext ?g 2 = Inl ValueError"
    by (simp add: py_index_def)
  from 1 2 3 show ?thesis by simp
qed

section \<open>Properties of the per-event driver\<close>

text \<open>
  Claim C8 says that the per-event driver never hands a negative trace index to the
  decoder. The driver tests only the pulse height: for a slot with pulse height 150 and
  trace index \<open>-1\<close> it calls \<open>_get_trace(-1)\<close>, which reads the last blob of the
  array and reconstructs a time from it. The accessor \<open>get_traces_for_event\<close> on the
  same trace indices decodes nothing.
\<close>

theorem negative_trace_index_is_decoded:
  "get_trace_calls
     \<lparr>zlib_decompress = Some, leastsq = (\<lambda>p xs ys. Inl ValueError),
      dflt_row = \<lparr>event_id = 0, ev_baseline = [], ev_pulseheights = [],
        ev_integrals = [], ev_traces = [], ev_t = [], ev_n = []\<rparr>\<rparr>
     [''blobs'' \<mapsto> VLArray [''200,200,250,'']]
     (zip [200, 200, 200, 200] (zip [150, 0, 0, 0] [- 1, - 1, - 1, - 1])) = [- 1]
   \<and> reconstruct_time_from_traces ProcessEvents
     \<lparr>zlib_decompress = Some, leastsq = (\<lambda>p xs ys. Inl ValueError),
      dflt_row = \<lparr>event_id = 0, ev_baseline = [], ev_pulseheights = [],
        ev_integrals = [], ev_traces = [], ev_t = [], ev_n = []\<rparr>\<rparr>
     [''blobs'' \<mapsto> VLArray [''200,200,250,'']]
     \<lparr>event_id = 0, ev_baseline = [200, 200, 200, 200], ev_pulseheights = [150, 0, 0, 0],
      ev_integrals = [0, 0, 0, 0], ev_traces = [- 1, - 1, - 1, - 1], ev_t = [], ev_n = []\<rparr>
     = Inr [Fin (2 * (25 / 10 ^ 10)), NaN, NaN, NaN]
   \<and> get_traces_for_event
     \<lparr>zlib_decompress = Some, leastsq = (\<lambda>p xs ys. Inl ValueError),
      dflt_row = \<lparr>event_id = 0, ev_baseline = [], ev_pulseheights = [],
        ev_integrals = [], ev_traces = [], ev_t = [], ev_n = []\<rparr>\<rparr>
     [''blobs'' \<mapsto> VLArray [''200,200,250,'']] [- 1, - 1, - 1, - 1] = Inr []"
  by (simp add: reconstruct_time_from_traces_def get_trace_def group_blobs_def
      py_index_def decode_fields_def py_int_def strip_def is_space_def digit_val_def
      ADC_THRESHOLD_def time_from_trace_def reconstruct_time_from_trace_def
      ADC_TIME_PER_SAMPLE_def)

section \<open>Properties of the MIP peak finder\<close>

text \<open>
  Claim C3 says that a peak window of width at most 40 is recorded as a null fit for that
  detector and that the fits of the remaining detectors are still computed, so that a
  result exists for all four detectors. In the code the null fit is a \<open>return\<close>
  inside the loop over the detectors: for thirty events whose first detector has ten
  pulse heights of 205 and twenty of 265 (window width 10), \<open>_pulse_gauss_fit\<close>
  returns the tuple \<open>(width, fitResult, chiSquare)\<close> at the first detector, no
  detector gets a fitted value, and \<open>_process_pulseheights\<close> fails when it divides
  by that tuple.
\<close>

theorem null_fit_ends_calibration:
  "pulse_gauss_fit example_ext
     (map (\<lambda>c. [c, 205, 205, 205])
        [205, 205, 205, 205, 205, 205, 205, 205, 205, 205,
         265, 265, 265, 265, 265, 265, 265, 265, 265, 265,
         265, 265, 265, 265, 265, 265, 265, 265, 265, 265])
     (arange 0 5000 10)
     = Inr (NullFit 10 [0, 0, 0] [[0, 0, 0], [0, 0, 0], [0, 0, 0]] (- 1))
   \<and> process_pulseheights example_ext
     (map (\<lambda>c. [c, 205, 205, 205])
        [205, 205, 205, 205, 205, 205, 205, 205, 205, 205,
         265, 265, 265, 265, 265, 265, 265, 265, 265, 265,
         265, 265, 265, 265, 265, 265, 265, 265, 265, 265])
     = Inl ValueError"
  by (simp add: process_pulseheights_def pulse_gauss_fit_def upt_rec
      fit_detector_two_peaks)

section \<open>Properties of the batch pipeline\<close>

text \<open>
  Each step of the pipeline is described by what it leaves in the state: the outcome of
  a step is a pair, and the lemmas speak about its two components.
\<close>

lemma and_then_fst: "fst (and_then r f) = (if fst r = None then fst (f (snd r)) else fst r)"
  by (cases r) (auto simp: and_then_def split: option.splits)

lemma and_then_snd: "snd (and_then r f) = (if fst r = None then snd (f (snd r)) else snd r)"
  by (cases r) (auto simp: and_then_def split: option.splits)

subsection \<open>Destination check\<close>

lemma check_destination_group [simp]:
  "self_group (snd (check_destination destination overwrite st)) = self_group st"
  by (simp add: check_destination_def Let_def split: option.splits)

lemma check_destination_fields [simp]:
  "self_source (snd (check_destination destination overwrite st)) = self_source st"
  "self_limit (snd (check_destination destination overwrite st)) = self_limit st"
  "self_tmp_events (snd (check_destination destination overwrite st)) = self_tmp_events st"
  "self_indexes (snd (check_destination destination overwrite st)) = self_indexes st"
  by (simp_all add: check_destination_def Let_def split: option.splits)

lemma check_destination_failed:
  "fst (check_destination destination overwrite st) \<noteq> None \<Longrightarrow>
     snd (check_destination destination overwrite st) = st"
  by (simp add: check_destination_def Let_def split: option.splits if_splits)

lemma check_destination_ok:
  "fst (check_destination destination overwrite st) = None \<Longrightarrow>
     destination \<noteq> Some ''_events''
     \<and> self_destination (snd (check_destination destination overwrite st))
         = (case destination of None \<Rightarrow> ''events'' | Some d \<Rightarrow> d)
     \<and> self_source st \<noteq> None"
  by (auto simp: check_destination_def Let_def split: option.splits if_splits)

subsection \<open>Creation of the staging table\<close>

lemma create_empty_tmp:
  "fst (create_empty_results_table ext st) = None \<Longrightarrow>
     self_tmp_events (snd (create_empty_results_table ext st)) = Some ''_t_events''"
  by (simp add: create_empty_results_table_def Let_def split: sum.splits)

lemma create_empty_failed:
  "fst (create_empty_results_table ext st) \<noteq> None \<Longrightarrow>
     snd (create_empty_results_table ext st) = st"
  by (simp add: create_empty_results_table_def Let_def split: sum.splits)

lemma create_empty_group_other:
  "nm \<noteq> ''_t_events'' \<Longrightarrow>
     self_group (snd (create_empty_results_table ext st)) nm = self_group st nm"
  by (simp add: create_empty_results_table_def Let_def removeNode_def split: sum.splits)

lemma create_empty_fields [simp]:
  "self_destination (snd (create_empty_results_table ext st)) = self_destination st"
  "self_limit (snd (create_empty_results_table ext st)) = self_limit st"
  "self_indexes (snd (create_empty_results_table ext st)) = self_indexes st"
  by (simp_all add: create_empty_results_table_def Let_def removeNode_def split: sum.splits)

lemma create_empty_source:
  "self_source st \<noteq> Some ''_t_events'' \<Longrightarrow>
     self_source (snd (create_empty_results_table ext st)) = self_source st"
  by (simp add: create_empty_results_table_def Let_def removeNode_def split: sum.splits)

lemma create_empty_source_closed:
  "fst (create_empty_results_table ext st) = None \<Longrightarrow>
   self_source st = Some ''_t_events'' \<Longrightarrow> self_group st ''_t_events'' \<noteq> None \<Longrightarrow>
     self_source (snd (create_empty_results_table ext st)) = None"
  by (simp add: create_empty_results_table_def Let_def removeNode_def split: sum.splits)

lemma create_empty_group_tmp:
  "fst (create_empty_results_table ext st) = None \<Longrightarrow> self_limit st = None \<Longrightarrow>
   table_of st (self_source st) = Inr src \<Longrightarrow>
     self_group (snd (create_empty_results_table ext st)) ''_t_events''
       = Some (Table \<lparr>t_processed = True,
                      t_rows = replicate (length (t_rows src)) (dflt_row ext)\<rparr>)"
  by (simp add: create_empty_results_table_def Let_def removeNode_def split: sum.splits)

subsection \<open>Copy into the staging table\<close>

lemma copy_fields [simp]:
  "self_source (snd (copy_events_into_table st)) = self_source st"
  "self_tmp_events (snd (copy_events_into_table st)) = self_tmp_events st"
  "self_destination (snd (copy_events_into_table st)) = self_destination st"
  "self_limit (snd (copy_events_into_table st)) = self_limit st"
  "self_indexes (snd (copy_events_into_table st)) = self_indexes st"
  by (simp_all add: copy_events_into_table_def Let_def split: sum.splits)

lemma copy_failed:
  "fst (copy_events_into_table st) \<noteq> None \<Longrightarrow> snd (copy_events_into_table st) = st"
  by (simp add: copy_events_into_table_def Let_def split: sum.splits if_splits)

lemma copy_group_other:
  "self_tmp_events st = Some ''_t_events'' \<Longrightarrow> nm \<noteq> ''_t_events'' \<Longrightarrow>
     self_group (snd (copy_events_into_table st)) nm = self_group st nm"
  by (simp add: copy_events_into_table_def Let_def split: sum.splits)

lemma copy_ok:
  "fst (copy_events_into_table st) = None \<Longrightarrow>
     (\<exists>tb src. table_of st (self_tmp_events st) = Inr tb
        \<and> table_of st (self_source st) = Inr src)"
  by (simp add: copy_events_into_table_def Let_def split: sum.splits if_splits)

lemma copy_group_tmp:
  "fst (copy_events_into_table st) = None \<Longrightarrow> self_limit st = None \<Longrightarrow>
   self_tmp_events st = Some ''_t_events'' \<Longrightarrow>
   table_of st (self_source st) = Inr src \<Longrightarrow> table_of st (Some ''_t_events'') = Inr tb \<Longrightarrow>
     self_group (snd (copy_events_into_table st)) ''_t_events''
       = Some (Table (tb\<lparr>t_rows :=
           map (\<lambda>(s, d). copy_columns (t_processed src) s d) (zip (t_rows src) (t_rows tb))\<rparr>))
     \<and> length (t_rows src) = length (t_rows tb)"
  by (simp add: copy_events_into_table_def Let_def slice_limit_def split: sum.splits if_splits)


subsection \<open>Timing columns\<close>

lemma store_traces_fields [simp]:
  "self_source (snd (store_results_from_traces cls ext st)) = self_source st"
  "self_tmp_events (snd (store_results_from_traces cls ext st)) = self_tmp_events st"
  "self_destination (snd (store_results_from_traces cls ext st)) = self_destination st"
  "self_limit (snd (store_results_from_traces cls ext st)) = self_limit st"
  "self_indexes (snd (store_results_from_traces cls ext st)) = self_indexes st"
  by (simp_all add: store_results_from_traces_def Let_def split: sum.splits prod.splits)

lemma store_traces_group_other:
  "self_tmp_events st = Some ''_t_events'' \<Longrightarrow> nm \<noteq> ''_t_events'' \<Longrightarrow>
     self_group (snd (store_results_from_traces cls ext st)) nm = self_group st nm"
  by (simp add: store_results_from_traces_def Let_def split: sum.splits prod.splits)

lemma store_traces_without:
  "without_traces cls \<Longrightarrow> store_results_from_traces cls ext st = (None, st)"
  by (simp add: store_results_from_traces_def)

lemma store_traces_full:
  "fst (store_results_from_traces cls ext st) = None \<Longrightarrow>
   \<not> without_traces cls \<Longrightarrow> \<not> is_indexed cls \<Longrightarrow>
   self_tmp_events st = Some ''_t_events'' \<Longrightarrow>
     \<exists>tb timings. table_of st (Some ''_t_events'') = Inr tb
        \<and> process_traces cls ext st = Inr timings
        \<and> length timings = length (t_rows tb)
        \<and> self_group (snd (store_results_from_traces cls ext st)) ''_t_events''
            = Some (Table (tb\<lparr>t_rows :=
                 map (\<lambda>(ev, tm). ev\<lparr>ev_t := tm\<rparr>) (zip (t_rows tb) timings)\<rparr>))"
  by (auto simp: store_results_from_traces_def Let_def split: sum.splits if_splits)

lemma store_traces_indexed:
  "fst (store_results_from_traces cls ext st) = None \<Longrightarrow>
   \<not> without_traces cls \<Longrightarrow> is_indexed cls \<Longrightarrow>
   self_tmp_events st = Some ''_t_events'' \<Longrightarrow>
     \<exists>tb timings rows. table_of st (Some ''_t_events'') = Inr tb
        \<and> process_traces cls ext st = Inr timings
        \<and> update_indexed (t_rows tb) (self_indexes st) timings = (None, rows)
        \<and> self_group (snd (store_results_from_traces cls ext st)) ''_t_events''
            = Some (Table (tb\<lparr>t_rows := rows\<rparr>))"
  by (auto simp: store_results_from_traces_def Let_def split: sum.splits if_splits prod.splits)

subsection \<open>Particle-count columns\<close>

lemma store_particles_fields [simp]:
  "self_source (snd (store_number_of_particles ext st)) = self_source st"
  "self_tmp_events (snd (store_number_of_particles ext st)) = self_tmp_events st"
  "self_destination (snd (store_number_of_particles ext st)) = self_destination st"
  "self_limit (snd (store_number_of_particles ext st)) = self_limit st"
  "self_indexes (snd (store_number_of_particles ext st)) = self_indexes st"
  by (simp_all add: store_number_of_particles_def Let_def split: sum.splits)

lemma store_particles_group_other:
  "self_tmp_events st = Some ''_t_events'' \<Longrightarrow> nm \<noteq> ''_t_events'' \<Longrightarrow>
     self_group (snd (store_number_of_particles ext st)) nm = self_group st nm"
  by (simp add: store_number_of_particles_def Let_def split: sum.splits)

lemma store_particles_ok:
  "fst (store_number_of_particles ext st) = None \<Longrightarrow>
   self_tmp_events st = Some ''_t_events'' \<Longrightarrow>
     \<exists>tb src nps. table_of st (Some ''_t_events'') = Inr tb
        \<and> table_of st (self_source st) = Inr src
        \<and> process_pulseheights ext
             (map ev_pulseheights (slice_limit (self_limit st) (t_rows src))) = Inr nps
        \<and> length nps = length (t_rows tb)
        \<and> self_group (snd (store_number_of_particles ext st)) ''_t_events''
            = Some (Table (tb\<lparr>t_rows :=
                 map (\<lambda>(ev, np). ev\<lparr>ev_n := np\<rparr>) (zip (t_rows tb) nps)\<rparr>))"
  by (auto simp: store_number_of_particles_def Let_def split: sum.splits if_splits)

subsection \<open>Publishing\<close>

lemma move_destination:
  "fst (move_results_table_into_destination st) = None \<Longrightarrow>
   self_tmp_events st = Some ''_t_events'' \<Longrightarrow>
     self_group (snd (move_results_table_into_destination st)) (self_destination st)
       = self_group st ''_t_events''
     \<and> self_destination (snd (move_results_table_into_destination st)) = self_destination st"
  by (auto simp: move_results_table_into_destination_def and_then_def rename_def
      removeNode_def Let_def split: option.splits if_splits)




subsection \<open>The whole run\<close>

lemma pair_fst_snd: "f = (a, b) \<longleftrightarrow> fst f = a \<and> snd f = b"
  by auto

lemma run_steps:
  assumes "process_and_store_results cls ext destination overwrite lmt st = (None, st')"
  shows "\<exists>st1 st2 st3 st4 st5.
           check_destination destination overwrite (st\<lparr>self_limit := lmt\<rparr>) = (None, st1)
         \<and> create_empty_results_table ext st1 = (None, st2)
         \<and> copy_events_into_table st2 = (None, st3)
         \<and> store_results_from_traces cls ext st3 = (None, st4)
         \<and> store_number_of_particles ext st4 = (None, st5)
         \<and> move_results_table_into_destination st5 = (None, st')"
  using assms
  unfolding process_and_store_results_def create_results_table_def and_then_def
  by (auto split: prod.splits option.splits)

lemma before_publish_frame:
  assumes "nm \<noteq> ''_t_events''"
  shows "self_group (snd (and_then (and_then (and_then
            (check_destination destination overwrite st) (create_results_table ext))
            (store_results_from_traces cls ext)) (store_number_of_particles ext))) nm
         = self_group st nm"
proof -
  let ?r1 = "check_destination destination overwrite st"
  let ?r2 = "create_empty_results_table ext (snd ?r1)"
  let ?r3 = "copy_events_into_table (snd ?r2)"
  let ?r4 = "store_results_from_traces cls ext (snd ?r3)"
  let ?r5 = "store_number_of_particles ext (snd ?r4)"
  have g2: "self_group (snd ?r2) nm = self_group st nm"
    using assms by (simp add: create_empty_group_other)
  have t2: "fst ?r2 = None \<Longrightarrow> self_tmp_events (snd ?r2) = Some ''_t_events''"
    by (rule create_empty_tmp)
  have g3: "fst ?r2 = None \<Longrightarrow> self_group (snd ?r3) nm = self_group st nm"
    using assms t2 g2 by (simp add: copy_group_other)
  have g4: "fst ?r2 = None \<Longrightarrow> self_group (snd ?r4) nm = self_group st nm"
    using assms t2 g3 by (simp add: store_traces_group_other)
  have g5: "fst ?r2 = None \<Longrightarrow> self_group (snd ?r5) nm = self_group st nm"
    using assms t2 g4 by (simp add: store_particles_group_other)
  show ?thesis
  proof (cases "fst ?r1 = None")
    case False
    then show ?thesis
      by (auto simp: and_then_snd and_then_fst create_results_table_def)
  next
    case r1: True
    show ?thesis
    proof (cases "fst ?r2 = None")
      case False
      with r1 g2 show ?thesis
        by (auto simp: and_then_snd and_then_fst create_results_table_def)
    next
      case r2: True
      show ?thesis
      proof (cases "fst ?r3 = None")
        case False
        with r1 r2 g3 show ?thesis
          by (auto simp: and_then_snd and_then_fst create_results_table_def)
      next
        case r3: True
        show ?thesis
        proof (cases "fst ?r4 = None")
          case False
          with r1 r2 r3 g4 show ?thesis
            by (auto simp: and_then_snd and_then_fst create_results_table_def)
        next
          case True
          with r1 r2 r3 g5 show ?thesis
            by (auto simp: and_then_snd and_then_fst create_results_table_def)
        qed
      qed
    qed
  qed
qed

lemma run_publish_state:
  assumes "process_and_store_results cls ext destination overwrite lmt st = (None, st')"
  shows "\<exists>st5. move_results_table_into_destination st5 = (None, st')
           \<and> self_tmp_events st5 = Some ''_t_events''
           \<and> self_destination st5 = (case destination of None \<Rightarrow> ''events'' | Some d \<Rightarrow> d)
           \<and> destination \<noteq> Some ''_events''
           \<and> (\<forall>nm. nm \<noteq> ''_t_events'' \<longrightarrow> self_group st5 nm = self_group st nm)
           \<and> (self_source st \<noteq> Some ''_t_events'' \<longrightarrow> self_source st5 = self_source st)
           \<and> self_group st5 ''_t_events'' \<noteq> None
           \<and> (\<forall>nm. self_source st = Some nm \<and> self_group st nm \<noteq> None
                  \<longrightarrow> nm \<noteq> ''_t_events'')"
proof -
  from run_steps [OF assms] obtain st1 st2 st3 st4 st5 where
    s1: "check_destination destination overwrite (st\<lparr>self_limit := lmt\<rparr>) = (None, st1)"
    and s2: "create_empty_results_table ext st1 = (None, st2)"
    and s3: "copy_events_into_table st2 = (None, st3)"
    and s4: "store_results_from_traces cls ext st3 = (None, st4)"
    and s5: "store_number_of_particles ext st4 = (None, st5)"
    and s6: "move_results_table_into_destination st5 = (None, st')"
    by blast
  let ?st0 = "st\<lparr>self_limit := lmt\<rparr>"
  from s1 have f1: "fst (check_destination destination overwrite ?st0) = None"
    and e1: "st1 = snd (check_destination destination overwrite ?st0)" by simp_all
  from s2 have f2: "fst (create_empty_results_table ext st1) = None"
    and e2: "st2 = snd (create_empty_results_table ext st1)" by simp_all
  from s3 have e3: "st3 = snd (copy_events_into_table st2)" by simp
  from s4 have e4: "st4 = snd (store_results_from_traces cls ext st3)" by simp
  from s5 have e5: "st5 = snd (store_number_of_particles ext st4)" by simp
  from check_destination_ok [OF f1]
  have d: "destination \<noteq> Some ''_events''"
    and d1: "self_destination st1 = (case destination of None \<Rightarrow> ''events'' | Some d \<Rightarrow> d)"
    by (simp_all add: e1)
  have t2: "self_tmp_events st2 = Some ''_t_events''"
    using create_empty_tmp [OF f2] by (simp add: e2)
  have t3: "self_tmp_events st3 = Some ''_t_events''" using t2 by (simp add: e3)
  have t4: "self_tmp_events st4 = Some ''_t_events''" using t3 by (simp add: e4)
  have t5: "self_tmp_events st5 = Some ''_t_events''" using t4 by (simp add: e5)
  have d5: "self_destination st5 = (case destination of None \<Rightarrow> ''events'' | Some d \<Rightarrow> d)"
    using d1 by (simp add: e5 e4 e3 e2)
  have g: "self_group st5 nm = self_group st nm" if "nm \<noteq> ''_t_events''" for nm
  proof -
    have "self_group st1 nm = self_group st nm" by (simp add: e1)
    moreover have "self_group st2 nm = self_group st1 nm"
      using that by (simp add: e2 create_empty_group_other)
    moreover have "self_group st3 nm = self_group st2 nm"
      using that t2 by (simp add: e3 copy_group_other)
    moreover have "self_group st4 nm = self_group st3 nm"
      using that t3 by (simp add: e4 store_traces_group_other)
    moreover have "self_group st5 nm = self_group st4 nm"
      using that t4 by (simp add: e5 store_particles_group_other)
    ultimately show ?thesis by simp
  qed
  have src: "self_source st5 = self_source st" if "self_source st \<noteq> Some ''_t_events''"
  proof -
    have "self_source st1 = self_source st" by (simp add: e1)
    moreover from this that have "self_source st2 = self_source st1"
      by (simp add: e2 create_empty_source)
    ultimately show ?thesis by (simp add: e5 e4 e3)
  qed
  from s5 have "fst (store_number_of_particles ext st4) = None" by simp
  from store_particles_ok [OF this t4] have ex: "self_group st5 ''_t_events'' \<noteq> None"
    by (auto simp: e5)
  have live: "nm \<noteq> ''_t_events''"
    if "self_source st = Some nm \<and> self_group st nm \<noteq> None" for nm
  proof
    assume "nm = ''_t_events''"
    with that have "self_source st1 = Some ''_t_events''" "self_group st1 ''_t_events'' \<noteq> None"
      by (simp_all add: e1)
    from create_empty_source_closed [OF f2 this] have "self_source st2 = None"
      by (simp add: e2)
    moreover from s3 have "fst (copy_events_into_table st2) = None" by simp
    from copy_ok [OF this] obtain tb where "table_of st2 (self_source st2) = Inr tb"
      by blast
    ultimately show False by (simp add: table_of_def)
  qed
  from s6 t5 d5 d g src ex live show ?thesis by blast
qed



subsection \<open>The example runs\<close>

lemma example_ext_fields:
  "zlib_decompress example_ext = Some"
  "dflt_row example_ext = \<lparr>event_id = 0, ev_baseline = [0, 0, 0, 0], ev_pulseheights = [0, 0, 0, 0],
        ev_integrals = [0, 0, 0, 0], ev_traces = [- 1, - 1, - 1, - 1],
        ev_t = [Fin (- 999), Fin (- 999), Fin (- 999), Fin (- 999)],
        ev_n = [Fin (- 999), Fin (- 999), Fin (- 999), Fin (- 999)]\<rparr>"
  by (simp_all add: example_ext_def)

lemma example_counts:
  "process_pulseheights example_ext
     [[205, 205, 205, 205], [205, 205, 205, 205], [205, 205, 205, 205],
      [205, 205, 205, 205], [205, 205, 205, 205], [205, 205, 205, 205],
      [205, 205, 205, 205], [205, 205, 205, 205], [205, 205, 205, 205],
      [205, 205, 205, 205]]
     = Inr (replicate 10 [Fin (41 / 40), Fin (41 / 40), Fin (41 / 40), Fin (41 / 40)])"
  by (simp add: process_pulseheights_def pulse_gauss_fit_def upt_rec
      fit_detector_narrow_peak numeral_eq_Suc)

lemmas pipeline_defs =
  process_and_store_results_def and_then_def check_destination_def create_results_table_def
  create_empty_results_table_def copy_events_into_table_def store_results_from_traces_def
  store_number_of_particles_def move_results_table_into_destination_def rename_def
  removeNode_def table_of_def slice_limit_def copy_columns_def process_traces_def
  is_indexed_def without_traces_def

lemmas example_defs =
  example_state_def example_group_def example_table_def example_event_def
  example_blobs_def example_ext_fields example_counts

lemmas decode_defs =
  reconstruct_time_from_traces_def get_trace_def group_blobs_def
  py_index_def decode_fields_def py_int_def strip_def is_space_def digit_val_def
  ADC_THRESHOLD_def time_from_trace_def reconstruct_time_from_trace_def
  reconstruct_time_from_trace_LINT_def ADC_TIME_PER_SAMPLE_def

lemma run_example:
  "fst (process_and_store_results ProcessEvents example_ext None False None
          (example_state ''events'' indexes)) = None"
  by (simp add: pipeline_defs example_defs decode_defs Let_def)


lemma move_default_destination:
  "fst (move_results_table_into_destination st) = None \<Longrightarrow>
   self_tmp_events st = Some ''_t_events'' \<Longrightarrow> self_destination st = ''events'' \<Longrightarrow>
   self_source st \<noteq> Some ''_t_events'' \<Longrightarrow>
     (\<exists>nm. self_source (snd (move_results_table_into_destination st)) = Some nm
        \<and> nm \<noteq> ''events'')
     \<and> self_group (snd (move_results_table_into_destination st)) ''events''
         = self_group st ''_t_events''"
  by (auto simp: move_results_table_into_destination_def and_then_def rename_def
      removeNode_def Let_def split: option.splits if_splits)

text \<open>
  Claim C7, amended. When \<open>process_and_store_results\<close> fails before its publish step,
  every table of the group other than the staging table \<open>_t_events\<close> is unchanged: so
  are the source table and the table under the destination name, provided neither has
  the name \<open>_t_events\<close>. A failure of the destination validation leaves the whole group
  unchanged; the reserved destination \<open>_events\<close>, and a destination that is taken by
  a table other than the source while \<open>overwrite\<close> is false, raise the error of the
  validation. After a successful run with the default destination and no overwrite, a
  second such call raises that error and leaves the state as it was, the row limit apart.
\<close>

theorem failure_before_publish_keeps_other_tables:
  "(let before_publish =
          and_then (and_then (and_then
            (check_destination destination overwrite (st\<lparr>self_limit := lmt\<rparr>))
            (create_results_table ext))
            (store_results_from_traces cls ext))
            (store_number_of_particles ext)
    in fst before_publish \<noteq> None \<longrightarrow>
         process_and_store_results cls ext destination overwrite lmt st = before_publish
         \<and> (\<forall>nm. nm \<noteq> ''_t_events'' \<longrightarrow>
                self_group (snd before_publish) nm = self_group st nm))
   \<and> (destination = Some ''_events'' \<longrightarrow>
         process_and_store_results cls ext destination overwrite lmt st
           = (Some RuntimeError, st\<lparr>self_limit := lmt\<rparr>))
   \<and> (destination \<noteq> Some ''_events'' \<and> self_source st = Some nm
        \<and> nm \<noteq> (case destination of None \<Rightarrow> ''events'' | Some d \<Rightarrow> d)
        \<and> self_group st (case destination of None \<Rightarrow> ''events'' | Some d \<Rightarrow> d) \<noteq> None
        \<and> \<not> overwrite \<longrightarrow>
         process_and_store_results cls ext destination overwrite lmt st
           = (Some RuntimeError, st\<lparr>self_limit := lmt\<rparr>))
   \<and> (init g indexes source = Inr st_a
        \<and> process_and_store_results cls ext None False lmt st_a = (None, st_b) \<longrightarrow>
         process_and_store_results cls_b ext_b None False lmt_b st_b
           = (Some RuntimeError, st_b\<lparr>self_limit := lmt_b\<rparr>))"
proof -
  let ?bp = "and_then (and_then (and_then
            (check_destination destination overwrite (st\<lparr>self_limit := lmt\<rparr>))
            (create_results_table ext))
            (store_results_from_traces cls ext))
            (store_number_of_particles ext)"
  have p1: "fst ?bp \<noteq> None \<longrightarrow>
         process_and_store_results cls ext destination overwrite lmt st = ?bp
         \<and> (\<forall>nm. nm \<noteq> ''_t_events'' \<longrightarrow> self_group (snd ?bp) nm = self_group st nm)"
  proof
    assume f: "fst ?bp \<noteq> None"
    then have "and_then ?bp move_results_table_into_destination = ?bp"
      by (cases ?bp) (auto simp: and_then_def split: option.splits)
    then have a: "process_and_store_results cls ext destination overwrite lmt st = ?bp"
      by (simp add: process_and_store_results_def)
    have "self_group (snd ?bp) nm = self_group st nm" if "nm \<noteq> ''_t_events''" for nm
      using before_publish_frame [OF that, of destination overwrite "st\<lparr>self_limit := lmt\<rparr>"
          ext cls]
      by simp
    with a show "process_and_store_results cls ext destination overwrite lmt st = ?bp
         \<and> (\<forall>nm. nm \<noteq> ''_t_events'' \<longrightarrow> self_group (snd ?bp) nm = self_group st nm)"
      by blast
  qed
  have p2: "destination = Some ''_events'' \<longrightarrow>
         process_and_store_results cls ext destination overwrite lmt st
           = (Some RuntimeError, st\<lparr>self_limit := lmt\<rparr>)"
    by (simp add: process_and_store_results_def and_then_def check_destination_def)
  have p3: "destination \<noteq> Some ''_events'' \<and> self_source st = Some nm
        \<and> nm \<noteq> (case destination of None \<Rightarrow> ''events'' | Some d \<Rightarrow> d)
        \<and> self_group st (case destination of None \<Rightarrow> ''events'' | Some d \<Rightarrow> d) \<noteq> None
        \<and> \<not> overwrite \<longrightarrow>
         process_and_store_results cls ext destination overwrite lmt st
           = (Some RuntimeError, st\<lparr>self_limit := lmt\<rparr>)"
    by (auto simp: process_and_store_results_def and_then_def check_destination_def Let_def
        split: option.splits)
  have p4: "process_and_store_results cls_b ext_b None False lmt_b st_b
           = (Some RuntimeError, st_b\<lparr>self_limit := lmt_b\<rparr>)"
    if a: "init g indexes source = Inr st_a
        \<and> process_and_store_results cls ext None False lmt st_a = (None, st_b)"
  proof -
    from a obtain nm0 where wf: "self_source st_a = Some nm0" "self_group st_a nm0 \<noteq> None"
      by (auto simp: init_def get_source_def split: sum.splits option.splits if_splits)
    from a have r: "process_and_store_results cls ext None False lmt st_a = (None, st_b)"
      by simp
    from run_publish_state [OF r] wf
    obtain st5 where m: "move_results_table_into_destination st5 = (None, st_b)"
      and t5: "self_tmp_events st5 = Some ''_t_events''"
      and d5: "self_destination st5 = ''events''"
      and ex: "self_group st5 ''_t_events'' \<noteq> None"
      and s5: "self_source st5 \<noteq> Some ''_t_events''"
      by auto
    from m have fm: "fst (move_results_table_into_destination st5) = None"
      and em: "st_b = snd (move_results_table_into_destination st5)" by simp_all
    from move_default_destination [OF fm t5 d5 s5] ex
    obtain s1 where "self_source st_b = Some s1" "s1 \<noteq> ''events''"
      "self_group st_b ''events'' \<noteq> None"
      by (auto simp: em)
    then show ?thesis
      by (simp add: process_and_store_results_def and_then_def check_destination_def)
  qed
  from p1 p2 p3 p4 show ?thesis by (simp only: Let_def) blast
qed


lemma run_example_missing_trace:
  "fst (and_then (and_then (and_then
          (check_destination None False
             ((example_state ''events'' [])
                \<lparr>self_group := (example_group ''events'')(''blobs'' \<mapsto> VLArray []),
                 self_limit := None\<rparr>))
          (create_results_table example_ext))
          (store_results_from_traces ProcessEvents example_ext))
          (store_number_of_particles example_ext)) = Some IndexError"
  by (simp add: pipeline_defs example_defs decode_defs Let_def)

theorem failure_before_publish_keeps_other_tables_witness:
  "fst (process_and_store_results ProcessEvents example_ext None False None
          ((example_state ''events'' [])
             \<lparr>self_group := (example_group ''events'')(''blobs'' \<mapsto> VLArray [])\<rparr>))
     = Some IndexError
   \<and> self_group (snd (process_and_store_results ProcessEvents example_ext None False None
          ((example_state ''events'' [])
             \<lparr>self_group := (example_group ''events'')(''blobs'' \<mapsto> VLArray [])\<rparr>)))
        ''events'' = Some (Table example_table)
   \<and> process_and_store_results ProcessEvents example_ext (Some ''_events'') False None
         (example_state ''events'' [])
       = (Some RuntimeError, example_state ''events'' [])
   \<and> process_and_store_results ProcessEvents example_ext None False None
         ((example_state ''_events'' [])
            \<lparr>self_group := (example_group ''_events'')(''events'' \<mapsto> Table example_table)\<rparr>)
       = (Some RuntimeError,
          (example_state ''_events'' [])
            \<lparr>self_group := (example_group ''_events'')(''events'' \<mapsto> Table example_table)\<rparr>)
   \<and> fst (process_and_store_results ProcessEvents example_ext None False None
         (snd (process_and_store_results ProcessEvents example_ext None False None
                 (example_state ''events'' []))))
       = Some RuntimeError
   \<and> self_group (snd (process_and_store_results ProcessEvents example_ext None False None
         (snd (process_and_store_results ProcessEvents example_ext None False None
                 (example_state ''events'' [])))))
       = self_group (snd (process_and_store_results ProcessEvents example_ext None False None
                 (example_state ''events'' [])))"
proof -
  let ?F = "(example_state ''events'' [])
             \<lparr>self_group := (example_group ''events'')(''blobs'' \<mapsto> VLArray [])\<rparr>"
  let ?S = "(example_state ''_events'' [])
            \<lparr>self_group := (example_group ''_events'')(''events'' \<mapsto> Table example_table)\<rparr>"
  let ?run = "process_and_store_results ProcessEvents example_ext None False None
                (example_state ''events'' [])"
  have lF: "?F\<lparr>self_limit := None\<rparr> = ?F" by (simp add: example_state_def)
  from failure_before_publish_keeps_other_tables [where destination = None and overwrite = False and st = ?F and lmt = None
      and ext = example_ext and cls = ProcessEvents] run_example_missing_trace
  have 1: "fst (process_and_store_results ProcessEvents example_ext None False None ?F)
             = Some IndexError
           \<and> self_group (snd (process_and_store_results ProcessEvents example_ext None False
                 None ?F)) ''events'' = Some (Table example_table)"
    by (simp add: Let_def example_state_def example_group_def)
  from failure_before_publish_keeps_other_tables [where destination = "Some ''_events''" and overwrite = False
      and st = "example_state ''events'' []" and lmt = None
      and ext = example_ext and cls = ProcessEvents]
  have 2: "process_and_store_results ProcessEvents example_ext (Some ''_events'') False None
         (example_state ''events'' []) = (Some RuntimeError, example_state ''events'' [])"
    by (simp add: example_state_def)
  from failure_before_publish_keeps_other_tables [where destination = None and overwrite = False and st = ?S and lmt = None
      and ext = example_ext and cls = ProcessEvents and nm = "''_events''"]
  have 3: "process_and_store_results ProcessEvents example_ext None False None ?S
             = (Some RuntimeError, ?S)"
    by (simp add: example_state_def example_group_def)
  have i: "init (example_group ''events'') [] None = Inr (example_state ''events'' [])"
    by (simp add: init_def get_source_def example_group_def example_state_def)
  have r: "?run = (None, snd ?run)"
    using run_example by (simp add: pair_fst_snd)
  from failure_before_publish_keeps_other_tables [where g = "example_group ''events''" and indexes = "[]" and source = None
      and st_a = "example_state ''events'' []" and cls = ProcessEvents and ext = example_ext
      and lmt = None and st_b = "snd ?run" and cls_b = ProcessEvents
      and ext_b = example_ext and lmt_b = None] i r
  have 4: "process_and_store_results ProcessEvents example_ext None False None (snd ?run)
             = (Some RuntimeError, (snd ?run)\<lparr>self_limit := None\<rparr>)"
    by simp
  from 1 2 3 4 show ?thesis by simp
qed

text \<open>
  Claim C7 as stated says that a failure during reconstruction leaves any table under
  the destination name unchanged. The staging table has the fixed name \<open>_t_events\<close>,
  and only \<open>_events\<close> is refused as a destination: with destination \<open>_t_events\<close>
  and \<open>overwrite\<close> set, the table of that name is removed and replaced by the staging
  table before the run fails in the timing step on a missing trace.
\<close>

theorem staging_destination_changed_by_failed_run:
  "fst (and_then (and_then (and_then
          (check_destination (Some ''_t_events'') True
             ((example_state ''events'' [])
                \<lparr>self_group := (example_group ''events'')
                   (''blobs'' \<mapsto> VLArray [], ''_t_events'' \<mapsto> Table example_table),
                 self_limit := None\<rparr>))
          (create_results_table example_ext))
          (store_results_from_traces ProcessEvents example_ext))
          (store_number_of_particles example_ext)) = Some IndexError
   \<and> fst (process_and_store_results ProcessEvents example_ext (Some ''_t_events'') True None
          ((example_state ''events'' [])
             \<lparr>self_group := (example_group ''events'')
                (''blobs'' \<mapsto> VLArray [], ''_t_events'' \<mapsto> Table example_table)\<rparr>))
       = Some IndexError
   \<and> self_group (snd (process_and_store_results ProcessEvents example_ext
          (Some ''_t_events'') True None
          ((example_state ''events'' [])
             \<lparr>self_group := (example_group ''events'')
                (''blobs'' \<mapsto> VLArray [], ''_t_events'' \<mapsto> Table example_table)\<rparr>)))
        ''_t_events''
       \<noteq> Some (Table example_table)"
  by (simp add: pipeline_defs example_defs decode_defs Let_def)

text \<open>
  Claim C1 says that a source table that holds the destination name is renamed to
  \<open>_events\<close> and never deleted, for any destination name. The publish step renames
  the source only when its name is \<open>events\<close>. For the source \<open>foo\<close> and the
  destination \<open>foo\<close> the validation lets the run pass (the source "will be moved out
  of the way"), and the publish step removes the table \<open>foo\<close>, which is the source:
  after the successful run no table \<open>_events\<close> exists, the source node is closed, and
  no table of the group holds the original data.
\<close>

theorem source_deleted_when_destination_is_not_events:
  "fst (process_and_store_results ProcessEvents example_ext (Some ''foo'') False None
          (example_state ''foo'' [])) = None
   \<and> self_source (snd (process_and_store_results ProcessEvents example_ext (Some ''foo'')
          False None (example_state ''foo'' []))) = None
   \<and> self_group (snd (process_and_store_results ProcessEvents example_ext (Some ''foo'')
          False None (example_state ''foo'' []))) ''_events'' = None
   \<and> (\<forall>nm. self_group (snd (process_and_store_results ProcessEvents example_ext
          (Some ''foo'') False None (example_state ''foo'' []))) nm
        \<noteq> Some (Table example_table))"
  by (simp add: pipeline_defs example_defs decode_defs Let_def)

section \<open>Index-subset processing\<close>

lemma reconstruct_slots_same_strategy:
  "(\<And>tr bl. time_from_trace c1 tr bl = time_from_trace c2 tr bl) \<Longrightarrow>
     reconstruct_slots c1 ext g slots acc = reconstruct_slots c2 ext g slots acc"
  by (induction slots arbitrary: acc) (auto split: sum.splits)

lemma process_list_same_strategy:
  "(\<And>tr bl. time_from_trace c1 tr bl = time_from_trace c2 tr bl) \<Longrightarrow>
     process_traces_from_event_list c1 ext g evs = process_traces_from_event_list c2 ext g evs"
  by (induction evs)
    (auto simp: reconstruct_time_from_traces_def reconstruct_slots_same_strategy [of c1 c2]
       split: sum.splits)

lemma process_list_map:
  "process_traces_from_event_list cls ext g evs = Inr res \<Longrightarrow>
     res = map (\<lambda>ev. map to_ns (projr (reconstruct_time_from_traces cls ext g ev))) evs"
  by (induction evs arbitrary: res) (auto split: sum.splits)

lemma itersequence_map:
  "itersequence rows idxs = Inr evs \<Longrightarrow>
     evs = map (\<lambda>i. rows ! i) idxs \<and> (\<forall>i \<in> set idxs. i < length rows)"
  by (induction idxs arbitrary: evs) (auto split: sum.splits if_splits)

lemma update_indexed_rows:
  "update_indexed rows idxs (map f idxs) = (None, rows') \<Longrightarrow>
     length rows' = length rows
     \<and> (\<forall>i \<in> set idxs. i < length rows \<and> ev_t (rows' ! i) = f i)
     \<and> (\<forall>j. j \<notin> set idxs \<longrightarrow> rows' ! j = rows ! j)"
proof (induction idxs arbitrary: rows)
  case Nil
  then show ?case by simp
next
  case (Cons i idxs)
  from Cons.prems have i: "i < length rows"
    by (auto split: if_splits)
  let ?rows1 = "rows[i := (rows ! i)\<lparr>ev_t := f i\<rparr>]"
  from Cons.prems i have "update_indexed ?rows1 idxs (map f idxs) = (None, rows')"
    by simp
  from Cons.IH [OF this]
  have len: "length rows' = length rows"
    and wr: "\<forall>k \<in> set idxs. k < length rows \<and> ev_t (rows' ! k) = f k"
    and fr: "\<forall>j. j \<notin> set idxs \<longrightarrow> rows' ! j = ?rows1 ! j"
    by simp_all
  have "ev_t (rows' ! i) = f i"
  proof (cases "i \<in> set idxs")
    case True
    with wr show ?thesis by blast
  next
    case False
    with fr have "rows' ! i = ?rows1 ! i" by blast
    with i show ?thesis by simp
  qed
  moreover have "\<forall>j. j \<notin> set (i # idxs) \<longrightarrow> rows' ! j = rows ! j"
    using fr by auto
  ultimately show ?case using len wr i by auto
qed


lemma run_staging_rows:
  assumes run: "process_and_store_results cls ext destination overwrite None st = (None, st')"
    and src: "table_of st (self_source st) = Inr src"
  shows "\<exists>st3 st4 tb3 tb4 nps.
           store_results_from_traces cls ext st3 = (None, st4)
         \<and> self_tmp_events st3 = Some ''_t_events''
         \<and> self_indexes st3 = self_indexes st
         \<and> self_limit st3 = None
         \<and> st3 = snd (copy_events_into_table (snd (create_empty_results_table ext
                 (snd (check_destination destination overwrite (st\<lparr>self_limit := None\<rparr>))))))
         \<and> table_of st3 (self_source st3) = Inr src
         \<and> self_group st3 ''_t_events'' = Some (Table tb3)
         \<and> length (t_rows tb3) = length (t_rows src)
         \<and> self_group st4 ''_t_events'' = Some (Table tb4)
         \<and> process_pulseheights ext (map ev_pulseheights (t_rows src)) = Inr nps
         \<and> length nps = length (t_rows tb4)
         \<and> self_group st' (case destination of None \<Rightarrow> ''events'' | Some d \<Rightarrow> d)
             = Some (Table (tb4\<lparr>t_rows :=
                 map (\<lambda>(ev, np). ev\<lparr>ev_n := np\<rparr>) (zip (t_rows tb4) nps)\<rparr>))"
proof -
  from run_steps [OF run] obtain st1 st2 st3 st4 st5 where
    s1: "check_destination destination overwrite (st\<lparr>self_limit := None\<rparr>) = (None, st1)"
    and s2: "create_empty_results_table ext st1 = (None, st2)"
    and s3: "copy_events_into_table st2 = (None, st3)"
    and s4: "store_results_from_traces cls ext st3 = (None, st4)"
    and s5: "store_number_of_particles ext st4 = (None, st5)"
    and s6: "move_results_table_into_destination st5 = (None, st')"
    by blast
  let ?st0 = "st\<lparr>self_limit := None\<rparr>"
  let ?dd = "case destination of None \<Rightarrow> ''events'' | Some d \<Rightarrow> d"
  from s1 have f1: "fst (check_destination destination overwrite ?st0) = None"
    and e1: "st1 = snd (check_destination destination overwrite ?st0)" by simp_all
  from s2 have f2: "fst (create_empty_results_table ext st1) = None"
    and e2: "st2 = snd (create_empty_results_table ext st1)" by simp_all
  from s3 have f3: "fst (copy_events_into_table st2) = None"
    and e3: "st3 = snd (copy_events_into_table st2)" by simp_all
  from s4 have e4: "st4 = snd (store_results_from_traces cls ext st3)" by simp
  from s5 have f5: "fst (store_number_of_particles ext st4) = None"
    and e5: "st5 = snd (store_number_of_particles ext st4)" by simp_all
  from s6 have f6: "fst (move_results_table_into_destination st5) = None"
    and e6: "st' = snd (move_results_table_into_destination st5)" by simp_all
  from src obtain nm where nm: "self_source st = Some nm"
    and gnm: "self_group st nm = Some (Table src)"
    by (auto simp: table_of_def split: option.splits node.splits)
  from run_publish_state [OF run] nm gnm have ne: "nm \<noteq> ''_t_events''" by auto
  have l1: "self_limit st1 = None" by (simp add: e1)
  have so1: "self_source st1 = Some nm" using nm by (simp add: e1)
  have g1: "self_group st1 nm = Some (Table src)" using gnm by (simp add: e1)
  have t1: "table_of st1 (self_source st1) = Inr src"
    using so1 g1 by (simp add: table_of_def)
  have t2: "self_tmp_events st2 = Some ''_t_events''"
    using create_empty_tmp [OF f2] by (simp add: e2)
  have so2: "self_source st2 = Some nm"
    using so1 ne by (simp add: e2 create_empty_source)
  have g2: "self_group st2 nm = Some (Table src)"
    using g1 ne by (simp add: e2 create_empty_group_other)
  have l2: "self_limit st2 = None" using l1 by (simp add: e2)
  have ts2: "table_of st2 (self_source st2) = Inr src"
    using so2 g2 by (simp add: table_of_def)
  have gt2: "self_group st2 ''_t_events''
       = Some (Table \<lparr>t_processed = True,
                      t_rows = replicate (length (t_rows src)) (dflt_row ext)\<rparr>)"
    using create_empty_group_tmp [OF f2 l1 t1] by (simp add: e2)
  then have tt2: "table_of st2 (Some ''_t_events'')
       = Inr \<lparr>t_processed = True,
              t_rows = replicate (length (t_rows src)) (dflt_row ext)\<rparr>"
    by (simp add: table_of_def)
  from copy_group_tmp [OF f3 l2 t2 ts2 tt2]
  obtain tb3 where gt3: "self_group st3 ''_t_events'' = Some (Table tb3)"
    and len3: "length (t_rows tb3) = length (t_rows src)"
    by (auto simp: e3)
  have t3: "self_tmp_events st3 = Some ''_t_events''" using t2 by (simp add: e3)
  have so3: "self_source st3 = Some nm" using so2 by (simp add: e3)
  have g3: "self_group st3 nm = Some (Table src)"
    using g2 ne t2 by (simp add: e3 copy_group_other)
  have ts3: "table_of st3 (self_source st3) = Inr src"
    using so3 g3 by (simp add: table_of_def)
  have l3: "self_limit st3 = None" using l2 by (simp add: e3)
  have i3: "self_indexes st3 = self_indexes st" by (simp add: e3 e2 e1)
  have t4: "self_tmp_events st4 = Some ''_t_events''" using t3 by (simp add: e4)
  have so4: "self_source st4 = Some nm" using so3 by (simp add: e4)
  have g4: "self_group st4 nm = Some (Table src)"
    using g3 ne t3 by (simp add: e4 store_traces_group_other)
  have l4: "self_limit st4 = None" using l3 by (simp add: e4)
  from store_particles_ok [OF f5 t4] so4 g4 l4
  obtain tb4 nps where gt4: "table_of st4 (Some ''_t_events'') = Inr tb4"
    and nps: "process_pulseheights ext (map ev_pulseheights (t_rows src)) = Inr nps"
    and lnps: "length nps = length (t_rows tb4)"
    and gt5: "self_group st5 ''_t_events''
            = Some (Table (tb4\<lparr>t_rows :=
                 map (\<lambda>(ev, np). ev\<lparr>ev_n := np\<rparr>) (zip (t_rows tb4) nps)\<rparr>))"
    by (auto simp: e5 table_of_def slice_limit_def)
  from gt4 have gt4': "self_group st4 ''_t_events'' = Some (Table tb4)"
    by (auto simp: table_of_def split: option.splits node.splits)
  have t5: "self_tmp_events st5 = Some ''_t_events''" using t4 by (simp add: e5)
  have d5: "self_destination st5 = ?dd"
    using check_destination_ok [OF f1] by (simp add: e5 e4 e3 e2 e1)
  from move_destination [OF f6 t5] gt5 d5
  have fin: "self_group st' ?dd
             = Some (Table (tb4\<lparr>t_rows :=
                 map (\<lambda>(ev, np). ev\<lparr>ev_n := np\<rparr>) (zip (t_rows tb4) nps)\<rparr>))"
    by (simp add: e6)
  have e3': "st3 = snd (copy_events_into_table (snd (create_empty_results_table ext
                 (snd (check_destination destination overwrite ?st0)))))"
    by (simp add: e3 e2 e1)
  from s4 t3 i3 l3 e3' ts3 gt3 len3 gt4' nps lnps fin show ?thesis
    by blast
qed


lemma process_traces_full_map:
  assumes "process_traces cls ext st = Inr timings" "\<not> is_indexed cls"
    "table_of st (self_source st) = Inr src" "self_limit st = None"
  shows "timings = map (\<lambda>ev. map to_ns (projr
            (reconstruct_time_from_traces cls ext (self_group st) ev))) (t_rows src)"
  using assms
  by (auto simp: process_traces_def slice_limit_def dest: process_list_map)

lemma process_traces_indexed_map:
  assumes "process_traces cls ext st = Inr timings" "is_indexed cls"
    "table_of st (self_source st) = Inr src"
  shows "timings = map (\<lambda>i. map to_ns (projr
            (reconstruct_time_from_traces cls ext (self_group st) (t_rows src ! i))))
            (self_indexes st)
         \<and> (\<forall>i \<in> set (self_indexes st). i < length (t_rows src))"
proof -
  from assms obtain evs where it: "itersequence (t_rows src) (self_indexes st) = Inr evs"
    and pl: "process_traces_from_event_list cls ext (self_group st) evs = Inr timings"
    by (auto simp: process_traces_def split: sum.splits)
  from itersequence_map [OF it] process_list_map [OF pl] show ?thesis
    by (simp add: comp_def)
qed

lemma reconstruct_same_strategy:
  "(\<And>tr bl. time_from_trace c1 tr bl = time_from_trace c2 tr bl) \<Longrightarrow>
     reconstruct_time_from_traces c1 ext g ev = reconstruct_time_from_traces c2 ext g ev"
  by (simp add: reconstruct_time_from_traces_def reconstruct_slots_same_strategy [of c1 c2])

lemma list_update_Cons_if:
  "(x # xs)[i := y] = (if i = 0 then y # xs else x # xs[i - 1 := y])"
  by (cases i) simp_all

lemma run_example_indexed:
  "fst (process_and_store_results ProcessIndexedEvents example_ext None False None
          (example_state ''events'' [0, 2, 5])) = None
   \<and> \<not> isl (table_of (snd (process_and_store_results ProcessIndexedEvents example_ext
          None False None (example_state ''events'' [0, 2, 5]))) (Some ''events''))
   \<and> length (t_rows (projr (table_of (snd (process_and_store_results ProcessIndexedEvents
          example_ext None False None (example_state ''events'' [0, 2, 5])))
          (Some ''events'')))) = 10"
  by (simp add: pipeline_defs example_defs decode_defs Let_def list_update_Cons_if)

text \<open>
  Claim C2 says that index-subset processing produces a results table with exactly one
  row per supplied index. The staging table is created by the method of
  \<open>ProcessEvents\<close>, with one row per source row, and all source rows are copied: for
  the indexes \<open>[0, 2, 5]\<close> on the ten-row source the published table has ten rows.
\<close>

theorem indexed_results_table_has_all_source_rows:
  "fst (process_and_store_results ProcessIndexedEvents example_ext None False None
          (example_state ''events'' [0, 2, 5])) = None
   \<and> \<not> isl (table_of (snd (process_and_store_results ProcessIndexedEvents example_ext
          None False None (example_state ''events'' [0, 2, 5]))) (Some ''events''))
   \<and> length (t_rows (projr (table_of (snd (process_and_store_results ProcessIndexedEvents
          example_ext None False None (example_state ''events'' [0, 2, 5])))
          (Some ''events'')))) = 10
   \<and> length [0, 2, 5 :: nat] = 3
   \<and> length (t_rows example_table) = 10"
  using run_example_indexed by (simp add: example_table_def)

text \<open>
  Claim C2, amended. Index-subset processing without a row limit produces a results
  table with one row per source row. For each supplied index \<open>i\<close>, the timing columns
  of row \<open>i\<close> equal those of row \<open>i\<close> after full processing of the same source
  with the same reconstruction strategy, and the count columns of every row equal those
  of full processing.
\<close>

theorem indexed_rows_match_full_processing:
  "(clsF = ProcessEvents \<and> clsI = ProcessIndexedEvents
      \<or> clsF = ProcessEventsWithLINT \<and> clsI = ProcessIndexedEventsWithLINT)
   \<and> table_of st (self_source st) = Inr src
   \<and> process_and_store_results clsF ext destination overwrite None st = (None, stF)
   \<and> process_and_store_results clsI ext destination overwrite None st = (None, stI)
   \<longrightarrow> (\<exists>tbF tbI.
          self_group stF (case destination of None \<Rightarrow> ''events'' | Some d \<Rightarrow> d)
            = Some (Table tbF)
        \<and> self_group stI (case destination of None \<Rightarrow> ''events'' | Some d \<Rightarrow> d)
            = Some (Table tbI)
        \<and> length (t_rows tbF) = length (t_rows src)
        \<and> length (t_rows tbI) = length (t_rows src)
        \<and> (\<forall>i \<in> set (self_indexes st).
              i < length (t_rows src) \<and> ev_t (t_rows tbI ! i) = ev_t (t_rows tbF ! i))
        \<and> (\<forall>r < length (t_rows src). ev_n (t_rows tbI ! r) = ev_n (t_rows tbF ! r)))"
proof
  let ?dd = "case destination of None \<Rightarrow> ''events'' | Some d \<Rightarrow> d"
  assume a: "(clsF = ProcessEvents \<and> clsI = ProcessIndexedEvents
      \<or> clsF = ProcessEventsWithLINT \<and> clsI = ProcessIndexedEventsWithLINT)
   \<and> table_of st (self_source st) = Inr src
   \<and> process_and_store_results clsF ext destination overwrite None st = (None, stF)
   \<and> process_and_store_results clsI ext destination overwrite None st = (None, stI)"
  then have cls: "\<not> without_traces clsF" "\<not> is_indexed clsF"
    "\<not> without_traces clsI" "is_indexed clsI"
    and same: "\<And>tr bl. time_from_trace clsI tr bl = time_from_trace clsF tr bl"
    by (auto simp: without_traces_def is_indexed_def time_from_trace_def)
  from a have src: "table_of st (self_source st) = Inr src"
    and runF: "process_and_store_results clsF ext destination overwrite None st = (None, stF)"
    and runI: "process_and_store_results clsI ext destination overwrite None st = (None, stI)"
    by simp_all
  from run_staging_rows [OF runF src] obtain st3 st4F tb3 tb4F nps where
    s4F: "store_results_from_traces clsF ext st3 = (None, st4F)"
    and t3: "self_tmp_events st3 = Some ''_t_events''"
    and i3: "self_indexes st3 = self_indexes st"
    and l3: "self_limit st3 = None"
    and e3: "st3 = snd (copy_events_into_table (snd (create_empty_results_table ext
                 (snd (check_destination destination overwrite (st\<lparr>self_limit := None\<rparr>))))))"
    and ts3: "table_of st3 (self_source st3) = Inr src"
    and g3: "self_group st3 ''_t_events'' = Some (Table tb3)"
    and len3: "length (t_rows tb3) = length (t_rows src)"
    and g4F: "self_group st4F ''_t_events'' = Some (Table tb4F)"
    and nps: "process_pulseheights ext (map ev_pulseheights (t_rows src)) = Inr nps"
    and lF: "length nps = length (t_rows tb4F)"
    and finF: "self_group stF ?dd
             = Some (Table (tb4F\<lparr>t_rows :=
                 map (\<lambda>(ev, np). ev\<lparr>ev_n := np\<rparr>) (zip (t_rows tb4F) nps)\<rparr>))"
    by blast
  from run_staging_rows [OF runI src] e3 g3 nps obtain st4I tb4I where
    s4I: "store_results_from_traces clsI ext st3 = (None, st4I)"
    and g4I: "self_group st4I ''_t_events'' = Some (Table tb4I)"
    and lI: "length nps = length (t_rows tb4I)"
    and finI: "self_group stI ?dd
             = Some (Table (tb4I\<lparr>t_rows :=
                 map (\<lambda>(ev, np). ev\<lparr>ev_n := np\<rparr>) (zip (t_rows tb4I) nps)\<rparr>))"
    by auto
  let ?f = "\<lambda>i. map to_ns (projr
              (reconstruct_time_from_traces clsF ext (self_group st3) (t_rows src ! i)))"
  have tt3: "table_of st3 (Some ''_t_events'') = Inr tb3"
    using g3 by (simp add: table_of_def)
  \<comment> \<open>the full run\<close>
  from s4F have "fst (store_results_from_traces clsF ext st3) = None"
    and e4F: "st4F = snd (store_results_from_traces clsF ext st3)" by simp_all
  from store_traces_full [OF this(1) cls(1,2) t3] tt3 g4F obtain timingsF where
    pF: "process_traces clsF ext st3 = Inr timingsF"
    and ltF: "length timingsF = length (t_rows tb3)"
    and r4F: "t_rows tb4F = map (\<lambda>(ev, tm). ev\<lparr>ev_t := tm\<rparr>) (zip (t_rows tb3) timingsF)"
    by (auto simp: e4F)
  from process_traces_full_map [OF pF cls(2) ts3 l3]
  have tmF: "timingsF = map (\<lambda>ev. map to_ns (projr
            (reconstruct_time_from_traces clsF ext (self_group st3) ev))) (t_rows src)" .
  \<comment> \<open>the indexed run\<close>
  from s4I have "fst (store_results_from_traces clsI ext st3) = None"
    and e4I: "st4I = snd (store_results_from_traces clsI ext st3)" by simp_all
  from store_traces_indexed [OF this(1) cls(3,4) t3] tt3 g4I obtain timingsI where
    pI: "process_traces clsI ext st3 = Inr timingsI"
    and up: "update_indexed (t_rows tb3) (self_indexes st3) timingsI = (None, t_rows tb4I)"
    by (auto simp: e4I)
  from process_traces_indexed_map [OF pI cls(4) ts3]
  have tmI: "timingsI = map ?f (self_indexes st)"
    and inr: "\<forall>i \<in> set (self_indexes st). i < length (t_rows src)"
    by (simp_all add: i3 reconstruct_same_strategy [OF same])
  from update_indexed_rows [of "t_rows tb3" "self_indexes st" ?f "t_rows tb4I"] up tmI i3
  have lenI: "length (t_rows tb4I) = length (t_rows tb3)"
    and wrI: "\<forall>i \<in> set (self_indexes st). ev_t (t_rows tb4I ! i) = ?f i"
    by simp_all
  \<comment> \<open>the two results tables\<close>
  let ?tbF = "tb4F\<lparr>t_rows := map (\<lambda>(ev, np). ev\<lparr>ev_n := np\<rparr>) (zip (t_rows tb4F) nps)\<rparr>"
  let ?tbI = "tb4I\<lparr>t_rows := map (\<lambda>(ev, np). ev\<lparr>ev_n := np\<rparr>) (zip (t_rows tb4I) nps)\<rparr>"
  have len4F: "length (t_rows tb4F) = length (t_rows src)"
    using r4F ltF len3 by simp
  have len4I: "length (t_rows tb4I) = length (t_rows src)"
    using lenI len3 by simp
  have 1: "length (t_rows ?tbF) = length (t_rows src)" using len4F lF by simp
  have 2: "length (t_rows ?tbI) = length (t_rows src)" using len4I lI by simp
  have 3: "i < length (t_rows src) \<and> ev_t (t_rows ?tbI ! i) = ev_t (t_rows ?tbF ! i)"
    if "i \<in> set (self_indexes st)" for i
  proof -
    from that inr have i: "i < length (t_rows src)" by blast
    have "ev_t (t_rows ?tbF ! i) = ev_t (t_rows tb4F ! i)"
      using i len4F lF by simp
    also have "\<dots> = timingsF ! i"
      using i r4F ltF len3 by simp
    also have "\<dots> = ?f i"
      using i tmF by simp
    finally have F: "ev_t (t_rows ?tbF ! i) = ?f i" .
    have "ev_t (t_rows ?tbI ! i) = ev_t (t_rows tb4I ! i)"
      using i len4I lI by simp
    with wrI that F i show ?thesis by simp
  qed
  have 4: "ev_n (t_rows ?tbI ! r) = ev_n (t_rows ?tbF ! r)" if "r < length (t_rows src)" for r
    using that len4F len4I lF lI by simp
  from finF finI 1 2 3 4 show "\<exists>tbF tbI.
          self_group stF ?dd = Some (Table tbF)
        \<and> self_group stI ?dd = Some (Table tbI)
        \<and> length (t_rows tbF) = length (t_rows src)
        \<and> length (t_rows tbI) = length (t_rows src)
        \<and> (\<forall>i \<in> set (self_indexes st).
              i < length (t_rows src) \<and> ev_t (t_rows tbI ! i) = ev_t (t_rows tbF ! i))
        \<and> (\<forall>r < length (t_rows src). ev_n (t_rows tbI ! r) = ev_n (t_rows tbF ! r))"
    by blast
qed


theorem indexed_rows_match_full_processing_witness:
  "\<exists>tbF tbI.
      self_group (snd (process_and_store_results ProcessEvents example_ext None False None
         (example_state ''events'' [0, 2, 5]))) ''events'' = Some (Table tbF)
    \<and> self_group (snd (process_and_store_results ProcessIndexedEvents example_ext None False
         None (example_state ''events'' [0, 2, 5]))) ''events'' = Some (Table tbI)
    \<and> length (t_rows tbF) = 10
    \<and> length (t_rows tbI) = 10
    \<and> (\<forall>i \<in> set [0, 2, 5]. i < 10 \<and> ev_t (t_rows tbI ! i) = ev_t (t_rows tbF ! i))
    \<and> (\<forall>r < 10. ev_n (t_rows tbI ! r) = ev_n (t_rows tbF ! r))"
proof -
  let ?st = "example_state ''events'' [0, 2, 5]"
  let ?runF = "process_and_store_results ProcessEvents example_ext None False None ?st"
  let ?runI = "process_and_store_results ProcessIndexedEvents example_ext None False None ?st"
  have src: "table_of ?st (self_source ?st) = Inr example_table"
    by (simp add: table_of_def example_state_def example_group_def)
  have rF: "?runF = (None, snd ?runF)"
    using run_example [of "[0, 2, 5]"] by (simp add: pair_fst_snd)
  have rI: "?runI = (None, snd ?runI)"
    using run_example_indexed by (simp add: pair_fst_snd)
  have len: "length (t_rows example_table) = 10"
    by (simp add: example_table_def)
  have idx: "self_indexes ?st = [0, 2, 5]"
    by (simp add: example_state_def)
  from indexed_rows_match_full_processing
    [of ProcessEvents ProcessIndexedEvents ?st example_table example_ext None False
        "snd ?runF" "snd ?runI"] src rF rI
  show ?thesis
    by (simp only: len idx option.case) blast
qed


end
